theory Spec2Isabelle
  imports Main "HOL-Library.AList"
begin

section \<open>Data model of the alert lifecycle engine\<close>

text \<open>
  The definitions below embed the class \<open>AdvancedNotificationManager\<close> of
  \<open>monitoring/advanced-alerting-system.py\<close> together with the enums and
  dataclasses it works on. Enums are datatypes, dataclasses are records, dictionaries
  that are only looked up are maps, dictionaries that are iterated are association
  lists in insertion order (with distinct keys, as a dict has).
\<close>

datatype AlertSeverity = INFO | LOW | MEDIUM | HIGH | CRITICAL | EMERGENCY

fun severity_value :: "AlertSeverity \<Rightarrow> string" where
  "severity_value INFO = ''info''"
| "severity_value LOW = ''low''"
| "severity_value MEDIUM = ''medium''"
| "severity_value HIGH = ''high''"
| "severity_value CRITICAL = ''critical''"
| "severity_value EMERGENCY = ''emergency''"

datatype NotificationChannel =
  EMAIL | SLACK | DISCORD | SMS | TELEGRAM | WHATSAPP | WEBHOOK
| PUSH_NOTIFICATION | IN_APP | SLACK_BOT

datatype EscalationAction =
  NOTIFY_NEXT_LEVEL | ESCALATE_MANAGER | CALL_ONDUTY | PAGING_SYSTEM
| SMS_BROADCAST | AUTO_RESOLUTION

datatype AlertStatus =
  NEW | ACKNOWLEDGED | IN_PROGRESS | RESOLVED | CLOSED | ESCALATED | SUPPRESSED

text \<open>
  A naive \<open>datetime\<close> is the count of microseconds since \<open>datetime.min\<close>, the
  midnight that begins 0001-01-01; the largest one, \<open>datetime.max\<close>, is the last
  microsecond of 9999-12-31, day 3652059. A \<open>datetime.time\<close> is a count of
  microseconds since midnight, and \<open>timedelta(seconds=n)\<close> is \<open>n\<close> million
  microseconds.
\<close>

type_synonym datetime = int
type_synonym daytime = int

definition day_length :: int where
  "day_length = 86400 * 1000000"

definition datetime_max :: datetime where
  "datetime_max = 3652059 * day_length - 1"

definition time_of :: "datetime \<Rightarrow> daytime" where
  "time_of dt = dt mod day_length"

definition timedelta_seconds :: "int \<Rightarrow> int" where
  "timedelta_seconds n = n * 1000000"

text \<open>
  \<open>dt + timedelta(seconds=n)\<close> for an integer \<open>n\<close>. The constructor raises
  \<open>OverflowError\<close> when the whole days of \<open>n\<close> seconds exceed 999999999 in
  magnitude, and so does the addition when the sum is not a datetime between
  \<open>datetime.min\<close> and \<open>datetime.max\<close>. \<open>None\<close> stands for the
  \<open>OverflowError\<close>.
\<close>

definition timedelta_in_range :: "int \<Rightarrow> bool" where
  "timedelta_in_range n \<longleftrightarrow> - 999999999 \<le> n div 86400 \<and> n div 86400 \<le> 999999999"

definition datetime_add :: "datetime \<Rightarrow> int \<Rightarrow> datetime option" where
  "datetime_add dt n =
     (if \<not> timedelta_in_range n then None
      else if 0 \<le> dt + timedelta_seconds n \<and> dt + timedelta_seconds n \<le> datetime_max
        then Some (dt + timedelta_seconds n)
      else None)"

record Alert =
  id' :: string
  title :: string
  message :: string
  severity :: AlertSeverity
  category :: string
  source :: string
  timestamp :: datetime
  status :: AlertStatus
  metadata :: "(string \<times> string) list"
  assigned_to :: "string option"
  acknowledged_by :: "string option"
  acknowledged_at :: "datetime option"
  resolved_by :: "string option"
  resolved_at :: "datetime option"
  escalation_level :: int
  suppression_rules :: "string list"
  dedup_key :: "string option"
  tags :: "string list"

text \<open>
  The field \<open>time_thresholds\<close> is annotated \<open>Dict[AlertSeverity, int]\<close> and the two
  built-in policies key it by severity, while \<open>schedule_escalation\<close> looks it up
  with an integer level. A key is therefore either of the two; an integer never equals
  an enum member.
\<close>

datatype threshold_key = Level int | Severity AlertSeverity

record EscalationPolicy =
  name :: string
  severity_levels :: "AlertSeverity list"
  time_thresholds :: "threshold_key \<rightharpoonup> int"
  notification_channels :: "int \<rightharpoonup> NotificationChannel list"
  escalation_rules :: "int \<rightharpoonup> EscalationAction"
  max_escalation_level :: int
  auto_resolve_after :: "int option"

text \<open>
  One entry of \<open>self.suppression_rules\<close>: a dictionary whose keys may all be
  absent.
\<close>

record rule_config =
  start_time :: "string option"
  end_time :: "string option"
  time_based :: "bool option"
  categories :: "string list option"
  sources :: "string list option"
  severities :: "string list option"

text \<open>
  A channel object is known by what its \<open>send(alert, is_escalation=...)\<close> does: it
  returns, or it raises an exception carrying a text.
\<close>

datatype send_result = Sent | Raised string

type_synonym channel = "Alert \<Rightarrow> bool \<Rightarrow> send_result"

text \<open>
  A row of the \<open>notifications\<close> table: alert id, channel, recipient, status and
  error message (the random row id and the clock columns are left out).
\<close>

type_synonym notification_row =
  "string \<times> NotificationChannel \<times> string \<times> string \<times> string option"

text \<open>
  The manager. Alert objects are shared by reference between the index
  \<open>active_alerts\<close>, the work queue and the timer callbacks, so they live in a
  \<open>heap\<close> and are referred to by their position in it. The database is the list
  of rows written by \<open>save_alert\<close> and \<open>save_notification\<close>, in call order;
  \<open>send_log\<close> and \<open>action_log\<close> record every call of a channel's \<open>send\<close> and of
  \<open>execute_escalation_action\<close>; \<open>timers\<close> holds the started
  \<open>threading.Timer\<close> objects as (due time, alert, level). The process's time zone
  decides for which naive datetimes \<open>.timestamp()\<close> returns rather than raises
  \<open>ValueError\<close>; \<open>timestamp_defined\<close> holds that part of the environment.
\<close>

record manager =
  heap :: "Alert list"
  active_alerts :: "(string \<times> nat) list"
  alert_queue :: "nat list"
  escalation_policies :: "(string \<times> EscalationPolicy) list"
  notification_channels' :: "NotificationChannel \<rightharpoonup> channel"
  suppression_rules' :: "(string \<times> rule_config) list"
  timers :: "(datetime \<times> nat \<times> int) list"
  db_alerts :: "Alert list"
  db_notifications :: "notification_row list"
  send_log :: "(NotificationChannel \<times> string \<times> bool) list"
  action_log :: "(string \<times> EscalationAction) list"
  timestamp_defined :: "datetime \<Rightarrow> bool"

section \<open>Parsing a time of day\<close>

text \<open>
  \<open>datetime.strptime(s, '%H:%M').time()\<close> on ASCII text. The format compiles to
  the regular expression \<open>(2[0-3]|[0-1]\d|\d):([0-5]\d|\d)\<close>, matched at the start
  of the text with backtracking over the alternatives in order; text left over after
  the match is an error, as is no match. \<open>None\<close> stands for the
  \<open>ValueError\<close>.
\<close>

definition is_digit :: "char \<Rightarrow> bool" where
  "is_digit c \<longleftrightarrow> c \<in> set ''0123456789''"

definition digit_value :: "char \<Rightarrow> int" where
  "digit_value c = int (of_char c) - 48"

fun match_M :: "string \<Rightarrow> (int \<times> string) option" where
  "match_M (c1 # c2 # rest) =
     (if c1 \<in> set ''012345'' \<and> is_digit c2
        then Some (10 * digit_value c1 + digit_value c2, rest)
      else if is_digit c1 then Some (digit_value c1, c2 # rest)
      else None)"
| "match_M [c1] = (if is_digit c1 then Some (digit_value c1, []) else None)"
| "match_M [] = None"

fun match_colon_M :: "string \<Rightarrow> (int \<times> string) option" where
  "match_colon_M (c # s) = (if c = CHR '':'' then match_M s else None)"
| "match_colon_M [] = None"

fun match_H :: "string \<Rightarrow> (int \<times> string) list" where
  "match_H (c1 # c2 # rest) =
     (if c1 = CHR ''2'' \<and> c2 \<in> set ''0123''
        then [(20 + digit_value c2, rest)] else [])
     @ (if c1 \<in> set ''01'' \<and> is_digit c2
        then [(10 * digit_value c1 + digit_value c2, rest)] else [])
     @ (if is_digit c1 then [(digit_value c1, c2 # rest)] else [])"
| "match_H [c1] = (if is_digit c1 then [(digit_value c1, [])] else [])"
| "match_H [] = []"

fun first_match :: "(int \<times> string) list \<Rightarrow> (int \<times> int \<times> string) option" where
  "first_match [] = None"
| "first_match ((h, s) # alts) =
     (case match_colon_M s of
        Some (m, rest) \<Rightarrow> Some (h, m, rest)
      | None \<Rightarrow> first_match alts)"

definition strptime_HM :: "string \<Rightarrow> daytime option" where
  "strptime_HM s =
     (case first_match (match_H s) of
        None \<Rightarrow> None
      | Some (h, m, rest) \<Rightarrow>
          if rest = [] then Some ((h * 3600 + m * 60) * 1000000) else None)"

section \<open>Policy lookup, suppression and deduplication\<close>

text \<open>
  \<open>get_escalation_policy\<close>: the first policy, in dictionary order, whose
  \<open>severity_levels\<close> contain the severity.
\<close>

definition get_escalation_policy :: "manager \<Rightarrow> AlertSeverity \<Rightarrow> EscalationPolicy option" where
  "get_escalation_policy m sev =
     find (\<lambda>policy. sev \<in> set (severity_levels policy)) (map snd (escalation_policies m))"

text \<open>
  The body of the loop of \<open>is_suppressed\<close> for one rule. The two time strings are
  parsed first, whatever the rule declares; an exception anywhere in the body is caught,
  logged, and the loop goes on with the next rule, as \<open>continue\<close> does.
\<close>

datatype rule_outcome = Matches | Continue | Exception

definition dict_get :: "'a option \<Rightarrow> 'a \<Rightarrow> 'a" where
  "dict_get entry dflt = (case entry of None \<Rightarrow> dflt | Some v \<Rightarrow> v)"

definition check_rule :: "rule_config \<Rightarrow> Alert \<Rightarrow> rule_outcome" where
  "check_rule rc alert =
     (case strptime_HM (dict_get (start_time rc) ''00:00'') of
        None \<Rightarrow> Exception
      | Some start_t \<Rightarrow>
     (case strptime_HM (dict_get (end_time rc) ''23:59'') of
        None \<Rightarrow> Exception
      | Some end_t \<Rightarrow>
          let current_time = time_of (timestamp alert) in
          if dict_get (time_based rc) True \<and> \<not> (start_t \<le> current_time \<and> current_time \<le> end_t)
            then Continue
          else if categories rc \<noteq> None \<and> category alert \<notin> set (the (categories rc))
            then Continue
          else if sources rc \<noteq> None \<and> source alert \<notin> set (the (sources rc))
            then Continue
          else if severities rc \<noteq> None
                  \<and> severity_value (severity alert) \<notin> set (the (severities rc))
            then Continue
          else Matches))"

fun is_suppressed_loop :: "(string \<times> rule_config) list \<Rightarrow> Alert \<Rightarrow> bool" where
  "is_suppressed_loop [] alert = False"
| "is_suppressed_loop ((rule_name, rc) # rules) alert =
     (case check_rule rc alert of
        Matches \<Rightarrow> True
      | Continue \<Rightarrow> is_suppressed_loop rules alert
      | Exception \<Rightarrow> is_suppressed_loop rules alert)"

definition is_suppressed :: "manager \<Rightarrow> Alert \<Rightarrow> bool" where
  "is_suppressed m alert = is_suppressed_loop (suppression_rules' m) alert"

text \<open>
  \<open>is_duplicate\<close>: \<open>not alert.dedup_key\<close> holds for \<open>None\<close> and for the empty
  string; the loop runs over the objects the index refers to.
\<close>

definition is_duplicate :: "manager \<Rightarrow> Alert \<Rightarrow> bool" where
  "is_duplicate m alert =
     (if dedup_key alert = None \<or> dedup_key alert = Some [] then False
      else list_ex
             (\<lambda>(k, r). dedup_key (heap m ! r) = dedup_key alert
                       \<and> status (heap m ! r) \<in> set [NEW, ACKNOWLEDGED, IN_PROGRESS])
             (active_alerts m))"

section \<open>Persistence\<close>

text \<open>
  \<open>save_alert\<close> and \<open>save_notification\<close> write one row each; the writes are taken to
  succeed. A row of the \<open>alerts\<close> table is the alert as it is at the call.
\<close>

definition save_alert :: "manager \<Rightarrow> Alert \<Rightarrow> manager" where
  "save_alert m alert = m\<lparr>db_alerts := db_alerts m @ [alert]\<rparr>"

definition save_notification ::
  "manager \<Rightarrow> string \<Rightarrow> NotificationChannel \<Rightarrow> string \<Rightarrow> string option \<Rightarrow> manager" where
  "save_notification m alert_id chan st error_message =
     m\<lparr>db_notifications :=
         db_notifications m @ [(alert_id, chan, ''system'', st, error_message)]\<rparr>"

section \<open>Creating an alert\<close>

text \<open>
  \<open>create_alert\<close>. The random id (\<open>uuid.uuid4()\<close>) and the clock
  (\<open>datetime.now()\<close>) are inputs. The result is the returned id, the local alert
  object as it is when the method returns, and the manager. Only an accepted alert is
  stored: it gets a place in the heap, an entry in the index, a database row, and its
  reference is put on the queue.
\<close>

definition new_alert ::
  "string \<Rightarrow> datetime \<Rightarrow> string \<Rightarrow> string \<Rightarrow> AlertSeverity \<Rightarrow> string \<Rightarrow> string
   \<Rightarrow> (string \<times> string) list option \<Rightarrow> string option \<Rightarrow> string list option \<Rightarrow> Alert" where
  "new_alert alert_id now ttl msg sev cat src md dk tgs =
     \<lparr>id' = alert_id, title = ttl, message = msg, severity = sev, category = cat,
      source = src, timestamp = now, status = NEW, metadata = dict_get md [],
      assigned_to = None, acknowledged_by = None, acknowledged_at = None,
      resolved_by = None, resolved_at = None, escalation_level = 0,
      suppression_rules = [], dedup_key = dk, tags = dict_get tgs []\<rparr>"

definition create_alert ::
  "manager \<Rightarrow> string \<Rightarrow> datetime \<Rightarrow> string \<Rightarrow> string \<Rightarrow> AlertSeverity \<Rightarrow> string \<Rightarrow> string
   \<Rightarrow> (string \<times> string) list option \<Rightarrow> string option \<Rightarrow> string list option
   \<Rightarrow> string \<times> Alert \<times> manager" where
  "create_alert m alert_id now ttl msg sev cat src md dk tgs =
     (let alert = new_alert alert_id now ttl msg sev cat src md dk tgs in
      if is_suppressed m alert then (alert_id, alert\<lparr>status := SUPPRESSED\<rparr>, m)
      else if is_duplicate m alert then (alert_id, alert, m)
      else
        let r = length (heap m);
            m1 = m\<lparr>heap := heap m @ [alert],
                   active_alerts := AList.update alert_id r (active_alerts m)\<rparr>;
            m2 = save_alert m1 alert;
            m3 = m2\<lparr>alert_queue := alert_queue m2 @ [r]\<rparr>
        in (alert_id, alert, m3))"

section \<open>Initial notifications and escalation\<close>

text \<open>
  The loop of \<open>send_initial_notifications\<close> over the channels of level 0. A channel
  without a channel object is skipped; a send that raises is caught and recorded as
  \<open>failed\<close> with the text of the exception.
\<close>

fun notify_initial :: "nat \<Rightarrow> NotificationChannel list \<Rightarrow> manager \<Rightarrow> manager" where
  "notify_initial r [] m = m"
| "notify_initial r (chan # chans) m =
     (case notification_channels' m chan of
        None \<Rightarrow> notify_initial r chans m
      | Some obj \<Rightarrow>
          let alert = heap m ! r;
              m1 = m\<lparr>send_log := send_log m @ [(chan, id' alert, False)]\<rparr>
          in (case obj alert False of
                Sent \<Rightarrow>
                  notify_initial r chans (save_notification m1 (id' alert) chan ''sent'' None)
              | Raised e \<Rightarrow>
                  notify_initial r chans
                    (save_notification m1 (id' alert) chan ''failed'' (Some e))))"

definition send_initial_notifications :: "manager \<Rightarrow> nat \<Rightarrow> manager" where
  "send_initial_notifications m r =
     (case get_escalation_policy m (severity (heap m ! r)) of
        None \<Rightarrow> m
      | Some policy \<Rightarrow> notify_initial r (dict_get (notification_channels policy 0) []) m)"

text \<open>
  The loop of \<open>schedule_escalation\<close> over the levels: a timer is started for each
  level that is a key of \<open>time_thresholds\<close>; it is due at the alert's timestamp plus
  the threshold in seconds. When that sum raises \<open>OverflowError\<close>, or the conversion
  of the due time by \<open>.timestamp()\<close> raises \<open>ValueError\<close>, the loop is left at
  once: the timers started so far stay, and neither this level nor a later one gets a
  timer. The start of the timer thread is taken to succeed.
\<close>

datatype outcome = Returned | OverflowError | ValueError

fun arm_timers ::
  "(datetime \<Rightarrow> bool) \<Rightarrow> EscalationPolicy \<Rightarrow> Alert \<Rightarrow> nat \<Rightarrow> int list
   \<Rightarrow> (datetime \<times> nat \<times> int) list \<times> outcome" where
  "arm_timers defined policy alert r [] = ([], Returned)"
| "arm_timers defined policy alert r (lvl # lvls) =
     (case time_thresholds policy (Level lvl) of
        None \<Rightarrow> arm_timers defined policy alert r lvls
      | Some seconds \<Rightarrow>
          (case datetime_add (timestamp alert) seconds of
             None \<Rightarrow> ([], OverflowError)
           | Some escalation_time \<Rightarrow>
               if \<not> defined escalation_time then ([], ValueError)
               else
                 (case arm_timers defined policy alert r lvls of
                    (started, result) \<Rightarrow> ((escalation_time, r, lvl) # started, result))))"

definition schedule_escalation :: "manager \<Rightarrow> nat \<Rightarrow> outcome \<times> manager" where
  "schedule_escalation m r =
     (case get_escalation_policy m (severity (heap m ! r)) of
        None \<Rightarrow> (Returned, m)
      | Some policy \<Rightarrow>
          (case arm_timers (timestamp_defined m) policy (heap m ! r) r
                  [1 .. max_escalation_level policy] of
             (started, result) \<Rightarrow> (result, m\<lparr>timers := timers m @ started\<rparr>)))"

text \<open>
  \<open>process_alert\<close> runs both steps inside \<open>try\<close>; an exception of
  \<open>schedule_escalation\<close> is caught and logged, and what was done before it stays.
\<close>

definition process_alert :: "manager \<Rightarrow> nat \<Rightarrow> manager" where
  "process_alert m r = snd (schedule_escalation (send_initial_notifications m r) r)"

text \<open>One turn of \<open>notification_worker\<close>: take the oldest queued alert and process it.\<close>

definition notification_worker :: "manager \<Rightarrow> manager" where
  "notification_worker m =
     (case alert_queue m of
        [] \<Rightarrow> m
      | r # queue \<Rightarrow> process_alert (m\<lparr>alert_queue := queue\<rparr>) r)"

text \<open>
  The loop of \<open>escalate_alert\<close> over the channels of the level. A send that raises
  is caught and logged; nothing is written to the database for it.
\<close>

fun notify_escalation :: "nat \<Rightarrow> NotificationChannel list \<Rightarrow> manager \<Rightarrow> manager" where
  "notify_escalation r [] m = m"
| "notify_escalation r (chan # chans) m =
     (case notification_channels' m chan of
        None \<Rightarrow> notify_escalation r chans m
      | Some obj \<Rightarrow>
          let alert = heap m ! r;
              m1 = m\<lparr>send_log := send_log m @ [(chan, id' alert, True)]\<rparr>
          in (case obj alert True of
                Sent \<Rightarrow>
                  notify_escalation r chans
                    (save_notification m1 (id' alert) chan ''escalated'' None)
              | Raised e \<Rightarrow> notify_escalation r chans m1))"

text \<open>
  \<open>execute_escalation_action\<close>: every action of the source only writes a log line
  (and \<open>NOTIFY_NEXT_LEVEL\<close> has no branch), so the call leaves the alerts as they are;
  the call itself is recorded. The periodic \<open>process_escalations\<close> does nothing but
  call \<open>execute_escalation_action\<close>, so it changes no alert either; it is not among
  the operations of the runs below.
\<close>

definition execute_escalation_action :: "manager \<Rightarrow> nat \<Rightarrow> EscalationAction \<Rightarrow> manager" where
  "execute_escalation_action m r action =
     m\<lparr>action_log := action_log m @ [(id' (heap m ! r), action)]\<rparr>"

definition escalate_alert :: "manager \<Rightarrow> nat \<Rightarrow> int \<Rightarrow> manager" where
  "escalate_alert m r lvl =
     (let alert = heap m ! r in
      if status alert \<in> set [RESOLVED, CLOSED] then m
      else
        (case get_escalation_policy m (severity alert) of
           None \<Rightarrow> m
         | Some policy \<Rightarrow>
             (case notification_channels policy lvl of
                None \<Rightarrow> m
              | Some chans \<Rightarrow>
                  let m1 = m\<lparr>heap := (heap m)
                             [r := alert\<lparr>escalation_level := lvl, status := ESCALATED\<rparr>]\<rparr>;
                      m2 = notify_escalation r chans m1
                  in (case escalation_rules policy lvl of
                        None \<Rightarrow> m2
                      | Some action \<Rightarrow> execute_escalation_action m2 r action))))"

text \<open>
  A timer going off: the \<open>i\<close>-th started timer leaves the pool and its callback
  \<open>escalate_alert(alert, level)\<close> runs. Timers are picked by position, so they can
  go off in any order. Whether and when a started timer goes off is up to the scheduler
  (one whose delay exceeds \<open>threading.TIMEOUT_MAX\<close>, some 292 years, never does).
\<close>

definition fire_timer :: "manager \<Rightarrow> nat \<Rightarrow> manager" where
  "fire_timer m i =
     (if i < length (timers m)
      then (case timers m ! i of
              (due, r, lvl) \<Rightarrow>
                escalate_alert (m\<lparr>timers := take i (timers m) @ drop (Suc i) (timers m)\<rparr>) r lvl)
      else m)"

section \<open>Acknowledging and resolving\<close>

definition acknowledge_alert :: "manager \<Rightarrow> string \<Rightarrow> string \<Rightarrow> datetime \<Rightarrow> bool \<times> manager" where
  "acknowledge_alert m alert_id actor now =
     (case map_of (active_alerts m) alert_id of
        None \<Rightarrow> (False, m)
      | Some r \<Rightarrow>
          let alert = (heap m ! r)
                \<lparr>status := ACKNOWLEDGED, acknowledged_by := Some actor,
                 acknowledged_at := Some now\<rparr>
          in (True, save_alert (m\<lparr>heap := (heap m)[r := alert]\<rparr>) alert))"

definition resolve_alert ::
  "manager \<Rightarrow> string \<Rightarrow> string \<Rightarrow> string option \<Rightarrow> datetime \<Rightarrow> bool \<times> manager" where
  "resolve_alert m alert_id actor notes now =
     (case map_of (active_alerts m) alert_id of
        None \<Rightarrow> (False, m)
      | Some r \<Rightarrow>
          let alert1 = (heap m ! r)
                \<lparr>status := RESOLVED, resolved_by := Some actor, resolved_at := Some now\<rparr>;
              alert2 = (if notes \<noteq> None \<and> notes \<noteq> Some []
                        then alert1\<lparr>metadata :=
                               AList.update ''resolution_notes'' (the notes) (metadata alert1)\<rparr>
                        else alert1)
          in (True, save_alert (m\<lparr>heap := (heap m)[r := alert2]\<rparr>) alert2))"

section \<open>Runs of operations\<close>

text \<open>
  The operations that reach the manager: the public calls, one turn of a notification
  worker, and a timer callback \<open>escalate_alert(alert, level)\<close>.
\<close>

datatype operation =
  Create string datetime string string AlertSeverity string string
    "(string \<times> string) list option" "string option" "string list option"
| Worker
| Acknowledge string string datetime
| Resolve string string "string option" datetime
| Escalate nat int

fun apply_operation :: "manager \<Rightarrow> operation \<Rightarrow> manager" where
  "apply_operation m (Create alert_id now ttl msg sev cat src md dk tgs) =
     snd (snd (create_alert m alert_id now ttl msg sev cat src md dk tgs))"
| "apply_operation m Worker = notification_worker m"
| "apply_operation m (Acknowledge alert_id actor now) =
     snd (acknowledge_alert m alert_id actor now)"
| "apply_operation m (Resolve alert_id actor notes now) =
     snd (resolve_alert m alert_id actor notes now)"
| "apply_operation m (Escalate r lvl) = escalate_alert m r lvl"

text \<open>
  The escalation levels of the alert at \<open>r\<close> seen before the run and after each of
  its operations, and the levels carried by the run's timer callbacks for that alert.
\<close>

fun level_trace :: "manager \<Rightarrow> nat \<Rightarrow> operation list \<Rightarrow> int list" where
  "level_trace m r [] = [escalation_level (heap m ! r)]"
| "level_trace m r (opn # ops) =
     escalation_level (heap m ! r) # level_trace (apply_operation m opn) r ops"

fun escalations_of :: "nat \<Rightarrow> operation list \<Rightarrow> int list" where
  "escalations_of r [] = []"
| "escalations_of r (Escalate r' lvl # ops) =
     (if r' = r then lvl # escalations_of r ops else escalations_of r ops)"
| "escalations_of r (opn # ops) = escalations_of r ops"

text \<open>
  References are valid when every reference held by the index, the queue or a timer
  points into the heap. Python keeps this by construction; the runs below keep it too.
\<close>

definition refs_valid :: "manager \<Rightarrow> bool" where
  "refs_valid m \<longleftrightarrow>
     list_all (\<lambda>(k, r). r < length (heap m)) (active_alerts m)
     \<and> list_all (\<lambda>r. r < length (heap m)) (alert_queue m)
     \<and> list_all (\<lambda>(due, r, lvl). r < length (heap m)) (timers m)"

text \<open>
  The index refers to each alert object under one id only: no reference occurs twice
  among its values. A fresh id for every \<open>create_alert\<close> keeps it so.
\<close>

definition index_unique :: "manager \<Rightarrow> bool" where
  "index_unique m \<longleftrightarrow> distinct (map snd (active_alerts m))"

text \<open>An operation that acknowledges the alert with the given id.\<close>

fun acknowledges :: "string \<Rightarrow> operation \<Rightarrow> bool" where
  "acknowledges alert_id (Acknowledge k actor now) = (k = alert_id)"
| "acknowledges alert_id opn = False"

section \<open>The timers an accepted alert gets\<close>

text \<open>
  The timer of a level, if the policy has a threshold for it: due at the creation
  timestamp plus the threshold. The due time of a level is representable when the level
  has no threshold, or the sum is a datetime that \<open>.timestamp()\<close> converts.
\<close>

definition timer_for ::
  "EscalationPolicy \<Rightarrow> datetime \<Rightarrow> nat \<Rightarrow> int \<Rightarrow> (datetime \<times> nat \<times> int) option" where
  "timer_for policy created r lvl =
     map_option (\<lambda>seconds. (created + timedelta_seconds seconds, r, lvl))
       (time_thresholds policy (Level lvl))"

definition due_representable ::
  "(datetime \<Rightarrow> bool) \<Rightarrow> EscalationPolicy \<Rightarrow> datetime \<Rightarrow> int \<Rightarrow> bool" where
  "due_representable defined policy created lvl =
     (case time_thresholds policy (Level lvl) of
        None \<Rightarrow> True
      | Some seconds \<Rightarrow>
          (case datetime_add created seconds of
             None \<Rightarrow> False
           | Some escalation_time \<Rightarrow> defined escalation_time))"

section \<open>The specification's reading of deduplication and suppression\<close>

text \<open>
  \<open>is_duplicate_spec\<close> follows the specification's wording, not the code: true iff
  the dedup key is non-null and some alert of the index with status new, acknowledged,
  in progress or escalated has the same key.
\<close>

definition is_duplicate_spec :: "manager \<Rightarrow> Alert \<Rightarrow> bool" where
  "is_duplicate_spec m alert \<longleftrightarrow>
     dedup_key alert \<noteq> None
     \<and> list_ex
         (\<lambda>(k, r). status (heap m ! r) \<in> set [NEW, ACKNOWLEDGED, IN_PROGRESS, ESCALATED]
                   \<and> dedup_key (heap m ! r) = dedup_key alert)
         (active_alerts m)"

text \<open>
  \<open>is_suppressed_spec\<close> follows the specification's wording, not the code: the
  time window is a clause only of a rule that declares \<open>time_based\<close>, the three
  lists are clauses only where listed, the clauses present are conjoined and the rules
  disjoined.
\<close>

definition in_window_spec :: "rule_config \<Rightarrow> Alert \<Rightarrow> bool" where
  "in_window_spec rc alert =
     (case (strptime_HM (dict_get (start_time rc) ''00:00''),
            strptime_HM (dict_get (end_time rc) ''23:59'')) of
        (Some start_t, Some end_t) \<Rightarrow>
          start_t \<le> time_of (timestamp alert) \<and> time_of (timestamp alert) \<le> end_t
      | _ \<Rightarrow> False)"

definition rule_matches_spec :: "rule_config \<Rightarrow> Alert \<Rightarrow> bool" where
  "rule_matches_spec rc alert =
     ((if time_based rc = Some True then in_window_spec rc alert else True)
      \<and> (case categories rc of None \<Rightarrow> True | Some cs \<Rightarrow> category alert \<in> set cs)
      \<and> (case sources rc of None \<Rightarrow> True | Some ss \<Rightarrow> source alert \<in> set ss)
      \<and> (case severities rc of None \<Rightarrow> True
          | Some vs \<Rightarrow> severity_value (severity alert) \<in> set vs))"

definition is_suppressed_spec :: "manager \<Rightarrow> Alert \<Rightarrow> bool" where
  "is_suppressed_spec m alert =
     list_ex (\<lambda>(rule_name, rc). rule_matches_spec rc alert) (suppression_rules' m)"

section \<open>Concrete configurations\<close>

text \<open>
  The policy of the specification's second scenario: severity high, level 1 due after
  300 seconds, e-mail at level 0, Slack and e-mail at level 1.
\<close>

definition scenario_policy :: EscalationPolicy where
  "scenario_policy =
     \<lparr>name = ''scenario'', severity_levels = [HIGH],
      time_thresholds = [Level 1 \<mapsto> 300],
      notification_channels = [0 \<mapsto> [EMAIL], 1 \<mapsto> [SLACK, EMAIL]],
      escalation_rules = Map.empty,
      max_escalation_level = 5, auto_resolve_after = None\<rparr>"

text \<open>
  A policy whose level 2 has a threshold of \<open>10^12\<close> seconds, more than thirty
  thousand years, between the thresholds of levels 1 and 3.
\<close>

definition overflow_policy :: EscalationPolicy where
  "overflow_policy =
     \<lparr>name = ''overflow'', severity_levels = [HIGH],
      time_thresholds = [Level 1 \<mapsto> 300, Level 2 \<mapsto> 1000000000000, Level 3 \<mapsto> 600],
      notification_channels = [0 \<mapsto> [EMAIL], 1 \<mapsto> [EMAIL], 2 \<mapsto> [EMAIL], 3 \<mapsto> [EMAIL]],
      escalation_rules = Map.empty,
      max_escalation_level = 5, auto_resolve_after = None\<rparr>"

text \<open>A policy whose level 2 is due before its level 1.\<close>

definition crossed_policy :: EscalationPolicy where
  "crossed_policy =
     \<lparr>name = ''crossed'', severity_levels = [HIGH],
      time_thresholds = [Level 1 \<mapsto> 600, Level 2 \<mapsto> 300],
      notification_channels = [0 \<mapsto> [EMAIL], 1 \<mapsto> [EMAIL], 2 \<mapsto> [EMAIL]],
      escalation_rules = Map.empty,
      max_escalation_level = 5, auto_resolve_after = None\<rparr>"

text \<open>A policy that notifies Slack and e-mail both at level 0 and at level 1.\<close>

definition both_channels_policy :: EscalationPolicy where
  "both_channels_policy =
     \<lparr>name = ''both'', severity_levels = [HIGH],
      time_thresholds = [Level 1 \<mapsto> 300],
      notification_channels = [0 \<mapsto> [SLACK, EMAIL], 1 \<mapsto> [SLACK, EMAIL]],
      escalation_rules = Map.empty,
      max_escalation_level = 5, auto_resolve_after = None\<rparr>"

definition always_sends :: channel where
  "always_sends alert is_escalation = Sent"

definition always_raises :: channel where
  "always_raises alert is_escalation = Raised ''connection refused''"

text \<open>
  In a process whose time zone is UTC, \<open>.timestamp()\<close> of a naive datetime returns
  from the second day of year 1 on, and raises \<open>ValueError\<close> before.
\<close>

definition utc_timestamp_defined :: "datetime \<Rightarrow> bool" where
  "utc_timestamp_defined dt \<longleftrightarrow> day_length \<le> dt \<and> dt \<le> datetime_max"

text \<open>The start of the scenarios: 2026-01-01 00:00:00, day 739617.\<close>

definition scenario_start :: datetime where
  "scenario_start = 739616 * day_length"

text \<open>
  A fresh manager with one policy and two channel objects, e-mail and Slack, given by
  their behaviour, in a process whose time zone is UTC.
\<close>

definition fresh_manager :: "EscalationPolicy \<Rightarrow> channel \<Rightarrow> channel \<Rightarrow> manager" where
  "fresh_manager policy email slack =
     \<lparr>heap = [], active_alerts = [], alert_queue = [],
      escalation_policies = [(name policy, policy)],
      notification_channels' = [EMAIL \<mapsto> email, SLACK \<mapsto> slack],
      suppression_rules' = [],
      timers = [], db_alerts = [], db_notifications = [], send_log = [],
      action_log = [], timestamp_defined = utc_timestamp_defined\<rparr>"

text \<open>
  The manager after \<open>create_alert\<close> of a high-severity alert with the given dedup key
  at the start of the scenarios.
\<close>

definition with_alert :: "manager \<Rightarrow> string \<Rightarrow> string option \<Rightarrow> manager" where
  "with_alert m alert_id dk =
     snd (snd (create_alert m alert_id scenario_start ''disk'' ''disk full'' HIGH ''system''
                 ''server-01'' None dk None))"

definition probe_alert :: "string option \<Rightarrow> Alert" where
  "probe_alert dk =
     new_alert ''probe'' 0 ''disk'' ''disk full'' HIGH ''system'' ''server-01'' None dk None"

text \<open>
  Suppression rules: a night window for low severity that declares \<open>time_based\<close>
  (the specification's fourth scenario), and the same window on a rule that does not
  declare \<open>time_based\<close>.
\<close>

definition night_rule_low :: rule_config where
  "night_rule_low =
     \<lparr>start_time = Some ''00:00'', end_time = Some ''06:00'', time_based = Some True,
      categories = None, sources = None, severities = Some [''low'']\<rparr>"

definition night_rule_undeclared :: rule_config where
  "night_rule_undeclared =
     \<lparr>start_time = Some ''00:00'', end_time = Some ''06:00'', time_based = None,
      categories = None, sources = None, severities = None\<rparr>"

definition manager_with_rule :: "rule_config \<Rightarrow> manager" where
  "manager_with_rule rc =
     (fresh_manager scenario_policy always_sends always_sends)
       \<lparr>suppression_rules' := [(''night'', rc)]\<rparr>"

definition alert_at :: "AlertSeverity \<Rightarrow> datetime \<Rightarrow> Alert" where
  "alert_at sev now =
     new_alert ''probe'' now ''disk'' ''disk full'' sev ''system'' ''server-01'' None None None"

section \<open>Auxiliary facts\<close>

subsection \<open>What the operations leave unchanged\<close>

lemma with_alert_fresh:
  "with_alert (fresh_manager policy email slack) alert_id dk =
     (fresh_manager policy email slack)
       \<lparr>heap := [new_alert alert_id scenario_start ''disk'' ''disk full'' HIGH ''system'' ''server-01'' None dk None],
        active_alerts := [(alert_id, 0)],
        alert_queue := [0],
        db_alerts := [new_alert alert_id scenario_start ''disk'' ''disk full'' HIGH ''system'' ''server-01'' None dk None]\<rparr>"
  by (simp add: with_alert_def create_alert_def fresh_manager_def is_suppressed_def
      is_duplicate_def save_alert_def Let_def)

lemma notify_escalation_frame:
  "heap (notify_escalation r chans m) = heap m
   \<and> active_alerts (notify_escalation r chans m) = active_alerts m
   \<and> alert_queue (notify_escalation r chans m) = alert_queue m
   \<and> escalation_policies (notify_escalation r chans m) = escalation_policies m
   \<and> notification_channels' (notify_escalation r chans m) = notification_channels' m
   \<and> suppression_rules' (notify_escalation r chans m) = suppression_rules' m
   \<and> timers (notify_escalation r chans m) = timers m
   \<and> db_alerts (notify_escalation r chans m) = db_alerts m
   \<and> action_log (notify_escalation r chans m) = action_log m"
  by (induction r chans m rule: notify_escalation.induct)
     (simp_all add: save_notification_def Let_def split: option.splits send_result.splits)

lemma notify_initial_frame:
  "heap (notify_initial r chans m) = heap m
   \<and> active_alerts (notify_initial r chans m) = active_alerts m
   \<and> alert_queue (notify_initial r chans m) = alert_queue m
   \<and> escalation_policies (notify_initial r chans m) = escalation_policies m
   \<and> notification_channels' (notify_initial r chans m) = notification_channels' m
   \<and> suppression_rules' (notify_initial r chans m) = suppression_rules' m
   \<and> timers (notify_initial r chans m) = timers m
   \<and> db_alerts (notify_initial r chans m) = db_alerts m
   \<and> action_log (notify_initial r chans m) = action_log m"
  by (induction r chans m rule: notify_initial.induct)
     (simp_all add: save_notification_def Let_def split: option.splits send_result.splits)

lemma heap_escalate_alert:
  "heap (escalate_alert m r lvl) =
     (if status (heap m ! r) \<notin> {RESOLVED, CLOSED}
         \<and> (\<exists>policy. get_escalation_policy m (severity (heap m ! r)) = Some policy
                      \<and> notification_channels policy lvl \<noteq> None)
      then (heap m)[r := (heap m ! r)\<lparr>escalation_level := lvl, status := ESCALATED\<rparr>]
      else heap m)"
  by (auto simp: escalate_alert_def Let_def notify_escalation_frame
        execute_escalation_action_def split: option.splits)

lemma escalate_alert_frame:
  "active_alerts (escalate_alert m r lvl) = active_alerts m
   \<and> alert_queue (escalate_alert m r lvl) = alert_queue m
   \<and> escalation_policies (escalate_alert m r lvl) = escalation_policies m
   \<and> notification_channels' (escalate_alert m r lvl) = notification_channels' m
   \<and> suppression_rules' (escalate_alert m r lvl) = suppression_rules' m
   \<and> timers (escalate_alert m r lvl) = timers m
   \<and> db_alerts (escalate_alert m r lvl) = db_alerts m"
  by (simp add: escalate_alert_def Let_def notify_escalation_frame
        execute_escalation_action_def split: option.splits)

lemma scenario_lookup:
  "get_escalation_policy (with_alert (fresh_manager policy email slack) alert_id dk) HIGH
     = (if HIGH \<in> set (severity_levels policy) then Some policy else None)"
  unfolding with_alert_fresh by (simp add: get_escalation_policy_def fresh_manager_def)


lemma datetime_add_Some:
  "datetime_add dt n = Some due \<Longrightarrow> due = dt + timedelta_seconds n"
  by (simp add: datetime_add_def split: if_splits)

lemma fst_arm_timers:
  "fst (arm_timers defined policy alert r lvls) =
     List.map_filter (timer_for policy (timestamp alert) r)
       (takeWhile (due_representable defined policy (timestamp alert)) lvls)"
proof (induction lvls)
  case Nil
  show ?case by (simp add: List.map_filter_simps)
next
  case (Cons lvl lvls)
  show ?case
  proof (cases "time_thresholds policy (Level lvl)")
    case None
    with Cons show ?thesis
      by (simp add: List.map_filter_simps timer_for_def due_representable_def)
  next
    case (Some seconds)
    note thr = this
    show ?thesis
    proof (cases "datetime_add (timestamp alert) seconds")
      case None
      with thr show ?thesis
        by (simp add: List.map_filter_simps due_representable_def)
    next
      case (Some due)
      with thr Cons datetime_add_Some [OF Some] show ?thesis
        by (simp add: List.map_filter_simps timer_for_def due_representable_def
              case_prod_unfold)
    qed
  qed
qed

lemma refs_arm_timers:
  "(due, r', lvl) \<in> set (fst (arm_timers defined policy alert r lvls)) \<Longrightarrow> r' = r"
  by (induction lvls) (auto simp: case_prod_unfold split: option.splits if_splits)

lemma get_escalation_policy_cong:
  "escalation_policies m' = escalation_policies m \<Longrightarrow>
   get_escalation_policy m' sev = get_escalation_policy m sev"
  by (simp add: get_escalation_policy_def)

lemma send_initial_notifications_frame:
  "heap (send_initial_notifications m r) = heap m
   \<and> active_alerts (send_initial_notifications m r) = active_alerts m
   \<and> alert_queue (send_initial_notifications m r) = alert_queue m
   \<and> escalation_policies (send_initial_notifications m r) = escalation_policies m
   \<and> notification_channels' (send_initial_notifications m r) = notification_channels' m
   \<and> suppression_rules' (send_initial_notifications m r) = suppression_rules' m
   \<and> timers (send_initial_notifications m r) = timers m
   \<and> db_alerts (send_initial_notifications m r) = db_alerts m
   \<and> action_log (send_initial_notifications m r) = action_log m"
  by (simp add: send_initial_notifications_def notify_initial_frame split: option.splits)

lemma process_alert_frame:
  "heap (process_alert m r) = heap m
   \<and> active_alerts (process_alert m r) = active_alerts m
   \<and> alert_queue (process_alert m r) = alert_queue m
   \<and> escalation_policies (process_alert m r) = escalation_policies m
   \<and> notification_channels' (process_alert m r) = notification_channels' m
   \<and> suppression_rules' (process_alert m r) = suppression_rules' m
   \<and> db_alerts (process_alert m r) = db_alerts m
   \<and> action_log (process_alert m r) = action_log m"
  by (simp add: process_alert_def schedule_escalation_def send_initial_notifications_frame
        split: option.splits prod.splits)

lemma timestamp_defined_notify_escalation:
  "timestamp_defined (notify_escalation r chans m) = timestamp_defined m"
  by (induction r chans m rule: notify_escalation.induct)
     (simp_all add: save_notification_def Let_def split: option.splits send_result.splits)

lemma timestamp_defined_notify_initial:
  "timestamp_defined (notify_initial r chans m) = timestamp_defined m"
  by (induction r chans m rule: notify_initial.induct)
     (simp_all add: save_notification_def Let_def split: option.splits send_result.splits)

lemma timestamp_defined_escalate_alert:
  "timestamp_defined (escalate_alert m r lvl) = timestamp_defined m"
  by (simp add: escalate_alert_def Let_def timestamp_defined_notify_escalation
        execute_escalation_action_def split: option.splits)

lemma timestamp_defined_send_initial_notifications:
  "timestamp_defined (send_initial_notifications m r) = timestamp_defined m"
  by (simp add: send_initial_notifications_def timestamp_defined_notify_initial
        split: option.splits)

lemma timestamp_defined_process_alert:
  "timestamp_defined (process_alert m r) = timestamp_defined m"
  by (simp add: process_alert_def schedule_escalation_def
        timestamp_defined_send_initial_notifications split: option.splits prod.splits)

lemma timers_process_alert:
  "timers (process_alert m r) =
     (case get_escalation_policy m (severity (heap m ! r)) of
        None \<Rightarrow> timers m
      | Some policy \<Rightarrow>
          timers m
            @ fst (arm_timers (timestamp_defined m) policy (heap m ! r) r
                     [1 .. max_escalation_level policy]))"
  by (simp add: process_alert_def schedule_escalation_def send_initial_notifications_frame
        timestamp_defined_send_initial_notifications
        get_escalation_policy_cong [of "send_initial_notifications m r" m]
        split: option.splits prod.splits)

lemma create_alert_accepted:
  assumes "\<not> is_suppressed m (new_alert alert_id now ttl msg sev cat src md dk tgs)"
    and "\<not> is_duplicate m (new_alert alert_id now ttl msg sev cat src md dk tgs)"
  shows "snd (snd (create_alert m alert_id now ttl msg sev cat src md dk tgs)) =
           m\<lparr>heap := heap m @ [new_alert alert_id now ttl msg sev cat src md dk tgs],
             active_alerts := AList.update alert_id (length (heap m)) (active_alerts m),
             db_alerts := db_alerts m @ [new_alert alert_id now ttl msg sev cat src md dk tgs],
             alert_queue := alert_queue m @ [length (heap m)]\<rparr>"
  using assms by (simp add: create_alert_def save_alert_def Let_def)

lemma send_log_notify_escalation:
  "send_log (notify_escalation r chans m) =
     send_log m @ map (\<lambda>c. (c, id' (heap m ! r), True))
                      (filter (\<lambda>c. notification_channels' m c \<noteq> None) chans)"
proof (induction r chans m rule: notify_escalation.induct)
  case (1 r m)
  show ?case by simp
next
  case (2 r chan chans m)
  show ?case
  proof (cases "notification_channels' m chan")
    case None
    with 2 show ?thesis by simp
  next
    case (Some obj)
    show ?thesis
    proof (cases "obj (heap m ! r) True")
      case Sent
      with Some 2(2) [OF Some refl refl Sent] show ?thesis
        by (simp add: save_notification_def Let_def)
    next
      case (Raised e)
      with Some 2(3) [OF Some refl refl Raised] show ?thesis
        by (simp add: Let_def)
    qed
  qed
qed




lemma id_list_update:
  "id' ((heap m)[r := (heap m ! r)\<lparr>escalation_level := lvl, status := ESCALATED\<rparr>] ! r)
     = id' (heap m ! r)"
  by (cases "r < length (heap m)") (simp_all add: list_update_beyond)

lemma send_log_escalate_alert:
  assumes "status (heap m ! r) \<notin> {RESOLVED, CLOSED}"
    and "get_escalation_policy m (severity (heap m ! r)) = Some policy"
    and "notification_channels policy lvl = Some chans"
  shows "send_log (escalate_alert m r lvl) =
           send_log m @ map (\<lambda>c. (c, id' (heap m ! r), True))
                            (filter (\<lambda>c. notification_channels' m c \<noteq> None) chans)"
proof -
  let ?m1 = "m\<lparr>heap := (heap m)[r := (heap m ! r)\<lparr>escalation_level := lvl, status := ESCALATED\<rparr>]\<rparr>"
  have "send_log (escalate_alert m r lvl) = send_log (notify_escalation r chans ?m1)"
    using assms
    by (simp add: escalate_alert_def Let_def execute_escalation_action_def split: option.splits)
  also have "\<dots> = send_log ?m1 @ map (\<lambda>c. (c, id' (heap ?m1 ! r), True))
                            (filter (\<lambda>c. notification_channels' ?m1 c \<noteq> None) chans)"
    by (rule send_log_notify_escalation)
  also have "\<dots> = send_log m @ map (\<lambda>c. (c, id' (heap m ! r), True))
                            (filter (\<lambda>c. notification_channels' m c \<noteq> None) chans)"
    by (simp add: id_list_update)
  finally show ?thesis .
qed

lemma escalate_alert_sets:
  assumes "r < length (heap m)"
    and "status (heap m ! r) \<notin> {RESOLVED, CLOSED}"
    and "get_escalation_policy m (severity (heap m ! r)) = Some policy"
    and "notification_channels policy lvl = Some chans"
  shows "status (heap (escalate_alert m r lvl) ! r) = ESCALATED"
    and "escalation_level (heap (escalate_alert m r lvl) ! r) = lvl"
proof -
  have "heap (escalate_alert m r lvl) =
          (heap m)[r := (heap m ! r)\<lparr>escalation_level := lvl, status := ESCALATED\<rparr>]"
    unfolding heap_escalate_alert using assms(2,3,4) by simp
  with assms(1) show "status (heap (escalate_alert m r lvl) ! r) = ESCALATED"
    and "escalation_level (heap (escalate_alert m r lvl) ! r) = lvl"
    by simp_all
qed

subsection \<open>Acknowledge, resolve and the escalation level\<close>

lemma upto_1_5: "[1 .. 5 :: int] = [1, 2, 3, 4, 5]"
  by (simp add: upto.simps)

lemma acknowledge_alert_known:
  "map_of (active_alerts m) alert_id = Some r \<Longrightarrow>
   snd (acknowledge_alert m alert_id actor now) =
     m\<lparr>heap := (heap m)[r := (heap m ! r)
            \<lparr>status := ACKNOWLEDGED, acknowledged_by := Some actor,
             acknowledged_at := Some now\<rparr>],
       db_alerts := db_alerts m @ [(heap m ! r)
            \<lparr>status := ACKNOWLEDGED, acknowledged_by := Some actor,
             acknowledged_at := Some now\<rparr>]\<rparr>"
  by (simp add: acknowledge_alert_def save_alert_def Let_def)

lemma resolve_alert_known:
  "map_of (active_alerts m) alert_id = Some r \<Longrightarrow>
   heap (snd (resolve_alert m alert_id actor notes now)) =
     (heap m)[r := (heap m ! r)
        \<lparr>status := RESOLVED, resolved_by := Some actor, resolved_at := Some now,
         metadata := (if notes \<noteq> None \<and> notes \<noteq> Some []
                      then AList.update ''resolution_notes'' (the notes)
                             (metadata (heap m ! r))
                      else metadata (heap m ! r))\<rparr>]"
  by (simp add: resolve_alert_def save_alert_def Let_def)

lemma acknowledge_alert_frame:
  "active_alerts (snd (acknowledge_alert m alert_id actor now)) = active_alerts m
   \<and> alert_queue (snd (acknowledge_alert m alert_id actor now)) = alert_queue m
   \<and> escalation_policies (snd (acknowledge_alert m alert_id actor now)) = escalation_policies m
   \<and> notification_channels' (snd (acknowledge_alert m alert_id actor now))
       = notification_channels' m
   \<and> timers (snd (acknowledge_alert m alert_id actor now)) = timers m
   \<and> db_notifications (snd (acknowledge_alert m alert_id actor now)) = db_notifications m
   \<and> send_log (snd (acknowledge_alert m alert_id actor now)) = send_log m
   \<and> length (heap (snd (acknowledge_alert m alert_id actor now))) = length (heap m)"
  by (simp add: acknowledge_alert_def save_alert_def Let_def split: option.splits)

lemma resolve_alert_frame:
  "active_alerts (snd (resolve_alert m alert_id actor notes now)) = active_alerts m
   \<and> alert_queue (snd (resolve_alert m alert_id actor notes now)) = alert_queue m
   \<and> escalation_policies (snd (resolve_alert m alert_id actor notes now))
       = escalation_policies m
   \<and> notification_channels' (snd (resolve_alert m alert_id actor notes now))
       = notification_channels' m
   \<and> timers (snd (resolve_alert m alert_id actor notes now)) = timers m
   \<and> db_notifications (snd (resolve_alert m alert_id actor notes now)) = db_notifications m
   \<and> send_log (snd (resolve_alert m alert_id actor notes now)) = send_log m
   \<and> length (heap (snd (resolve_alert m alert_id actor notes now))) = length (heap m)"
  by (simp add: resolve_alert_def save_alert_def Let_def split: option.splits)

lemma level_acknowledge_alert:
  "escalation_level (heap (snd (acknowledge_alert m alert_id actor now)) ! r)
     = escalation_level (heap m ! r)"
proof (cases "map_of (active_alerts m) alert_id")
  case None
  then show ?thesis by (simp add: acknowledge_alert_def)
next
  case (Some r')
  show ?thesis
    unfolding acknowledge_alert_known [OF Some]
    by (cases "r' < length (heap m)") (simp_all add: nth_list_update list_update_beyond)
qed

lemma level_resolve_alert:
  "escalation_level (heap (snd (resolve_alert m alert_id actor notes now)) ! r)
     = escalation_level (heap m ! r)"
proof (cases "map_of (active_alerts m) alert_id")
  case None
  then show ?thesis by (simp add: resolve_alert_def)
next
  case (Some r')
  show ?thesis
    unfolding resolve_alert_known [OF Some]
    by (cases "r' < length (heap m)") (simp_all add: nth_list_update list_update_beyond)
qed

lemma heap_create_alert:
  "heap (snd (snd (create_alert m alert_id now ttl msg sev cat src md dk tgs))) = heap m
   \<or> heap (snd (snd (create_alert m alert_id now ttl msg sev cat src md dk tgs)))
       = heap m @ [new_alert alert_id now ttl msg sev cat src md dk tgs]"
  by (simp add: create_alert_def save_alert_def Let_def)

lemma nth_heap_create_alert:
  "r < length (heap m) \<Longrightarrow>
   heap (snd (snd (create_alert m alert_id now ttl msg sev cat src md dk tgs))) ! r
     = heap m ! r"
  using heap_create_alert [of m alert_id now ttl msg sev cat src md dk tgs]
  by (auto simp: nth_append)

lemma heap_notification_worker: "heap (notification_worker m) = heap m"
  by (simp add: notification_worker_def process_alert_frame split: list.splits)

lemma level_escalate_alert:
  "escalation_level (heap (escalate_alert m r' lvl) ! r) = escalation_level (heap m ! r)
   \<or> (r' = r \<and> escalation_level (heap (escalate_alert m r' lvl) ! r) = lvl)"
  unfolding heap_escalate_alert
  by (cases "r' < length (heap m)") (simp_all add: nth_list_update list_update_beyond)

lemma length_heap_apply_operation:
  "length (heap m) \<le> length (heap (apply_operation m opn))"
proof (cases opn)
  case (Create alert_id now ttl msg sev cat src md dk tgs)
  then show ?thesis
    using heap_create_alert [of m alert_id now ttl msg sev cat src md dk tgs] by auto
next
  case Worker
  then show ?thesis by (simp add: heap_notification_worker)
next
  case (Acknowledge alert_id actor now)
  then show ?thesis by (simp add: acknowledge_alert_frame)
next
  case (Resolve alert_id actor nts now)
  then show ?thesis by (simp add: resolve_alert_frame)
next
  case (Escalate r lvl)
  then show ?thesis by (simp add: heap_escalate_alert)
qed

lemma level_apply_operation:
  assumes "r < length (heap m)"
  shows "escalation_level (heap (apply_operation m opn) ! r) = escalation_level (heap m ! r)
         \<or> (\<exists>lvl. opn = Escalate r lvl
                   \<and> escalation_level (heap (apply_operation m opn) ! r) = lvl)"
proof (cases opn)
  case (Create alert_id now ttl msg sev cat src md dk tgs)
  then show ?thesis using assms by (simp add: nth_heap_create_alert)
next
  case Worker
  then show ?thesis by (simp add: heap_notification_worker)
next
  case (Acknowledge alert_id actor now)
  then show ?thesis by (simp add: level_acknowledge_alert)
next
  case (Resolve alert_id actor nts now)
  then show ?thesis by (simp add: level_resolve_alert)
next
  case (Escalate r' lvl)
  then show ?thesis using level_escalate_alert [of m r' lvl r] by auto
qed

subsection \<open>Levels seen along a run\<close>

lemma notification_worker_frame:
  "active_alerts (notification_worker m) = active_alerts m
   \<and> escalation_policies (notification_worker m) = escalation_policies m
   \<and> notification_channels' (notification_worker m) = notification_channels' m
   \<and> suppression_rules' (notification_worker m) = suppression_rules' m
   \<and> db_alerts (notification_worker m) = db_alerts m"
  by (simp add: notification_worker_def process_alert_frame split: list.splits)

lemma heap_escalate_alert_open:
  assumes "status (heap m ! r) \<notin> {RESOLVED, CLOSED}"
    and "get_escalation_policy m (severity (heap m ! r)) = Some policy"
    and "notification_channels policy lvl = Some chans"
  shows "heap (escalate_alert m r lvl) =
           (heap m)[r := (heap m ! r)\<lparr>escalation_level := lvl, status := ESCALATED\<rparr>]"
  unfolding heap_escalate_alert using assms by simp

lemma set_escalations_of_Cons:
  "set (escalations_of r ops) \<subseteq> set (escalations_of r (opn # ops))"
  by (cases opn) auto

lemma sorted_escalations_of_Cons:
  "sorted (c # escalations_of r (opn # ops)) \<Longrightarrow> sorted (c # escalations_of r ops)"
  by (cases opn) (auto split: if_splits)

lemma level_trace_subset:
  "r < length (heap m) \<Longrightarrow>
   set (level_trace m r ops)
     \<subseteq> insert (escalation_level (heap m ! r)) (set (escalations_of r ops))"
proof (induction ops arbitrary: m)
  case Nil
  show ?case by simp
next
  case (Cons opn ops)
  let ?m' = "apply_operation m opn"
  have len: "r < length (heap ?m')"
    using Cons.prems length_heap_apply_operation [of m opn] by simp
  have ih: "set (level_trace ?m' r ops)
              \<subseteq> insert (escalation_level (heap ?m' ! r)) (set (escalations_of r ops))"
    using Cons.IH [OF len] .
  have new: "escalation_level (heap ?m' ! r)
               \<in> insert (escalation_level (heap m ! r)) (set (escalations_of r (opn # ops)))"
    using level_apply_operation [OF Cons.prems, of opn]
  proof
    assume "escalation_level (heap ?m' ! r) = escalation_level (heap m ! r)"
    then show ?thesis by simp
  next
    assume "\<exists>lvl. opn = Escalate r lvl \<and> escalation_level (heap ?m' ! r) = lvl"
    then obtain lvl where o: "opn = Escalate r lvl"
      and l: "escalation_level (heap ?m' ! r) = lvl" by blast
    have "lvl \<in> set (escalations_of r (opn # ops))" unfolding o by simp
    with l show ?thesis by simp
  qed
  show ?case
    using ih new set_escalations_of_Cons [of r ops opn] by auto
qed

subsection \<open>The scenario configurations evaluated\<close>

lemma worker_with_alert:
  "notification_worker (with_alert (fresh_manager policy email slack) alert_id dk) =
     process_alert
       ((with_alert (fresh_manager policy email slack) alert_id dk)\<lparr>alert_queue := []\<rparr>) 0"
  unfolding with_alert_fresh by (simp add: notification_worker_def fresh_manager_def)

lemma scenario_worker_timers:
  "timers (notification_worker
             (with_alert (fresh_manager scenario_policy email slack) alert_id dk))
     = [(scenario_start + 300000000, 0, 1)]"
proof -
  let ?m1 = "with_alert (fresh_manager scenario_policy email slack) alert_id dk"
  let ?a1 = "new_alert alert_id scenario_start ''disk'' ''disk full'' HIGH ''system'' ''server-01''
               None dk None"
  have h1: "heap (?m1\<lparr>alert_queue := []\<rparr>) ! 0 = ?a1" by (simp add: with_alert_fresh)
  have t1: "timers (?m1\<lparr>alert_queue := []\<rparr>) = []"
    unfolding with_alert_fresh by (simp add: fresh_manager_def)
  have sv: "severity ?a1 = HIGH" "timestamp ?a1 = scenario_start"
    by (simp_all add: new_alert_def)
  have df: "timestamp_defined (?m1\<lparr>alert_queue := []\<rparr>) = utc_timestamp_defined"
    unfolding with_alert_fresh by (simp add: fresh_manager_def)
  have pol: "get_escalation_policy (?m1\<lparr>alert_queue := []\<rparr>) HIGH = Some scenario_policy"
    using scenario_lookup [of scenario_policy email slack alert_id dk]
    by (simp add: get_escalation_policy_def) (simp add: scenario_policy_def)
  have mx: "max_escalation_level scenario_policy = 5" by (simp add: scenario_policy_def)
  show ?thesis
    unfolding worker_with_alert timers_process_alert h1 sv pol df
    by (simp add: t1 mx upto_1_5)
       (simp add: scenario_policy_def sv datetime_add_def timedelta_in_range_def
          timedelta_seconds_def datetime_max_def day_length_def scenario_start_def
          utc_timestamp_defined_def new_alert_def)
qed

lemma scenario_worker_index:
  "active_alerts (notification_worker
                    (with_alert (fresh_manager policy email slack) alert_id dk))
     = [(alert_id, 0)]
   \<and> heap (notification_worker
             (with_alert (fresh_manager policy email slack) alert_id dk))
     = [new_alert alert_id scenario_start ''disk'' ''disk full'' HIGH ''system'' ''server-01''
          None dk None]"
  by (simp add: notification_worker_frame heap_notification_worker with_alert_fresh)

lemma strptime_midnight: "strptime_HM ''00:00'' = Some 0"
  by (simp add: strptime_HM_def is_digit_def digit_value_def)

lemma strptime_six: "strptime_HM ''06:00'' = Some 21600000000"
  by (simp add: strptime_HM_def is_digit_def digit_value_def)

lemma strptime_last_minute: "strptime_HM ''23:59'' = Some 86340000000"
  by (simp add: strptime_HM_def is_digit_def digit_value_def)

lemma check_night_rule_low:
  "check_rule night_rule_low (alert_at sev now) =
     (if 0 \<le> time_of now \<and> time_of now \<le> 21600000000 \<and> sev = LOW
      then Matches else Continue)"
  by (cases sev)
     (simp_all add: check_rule_def night_rule_low_def dict_get_def strptime_midnight
        strptime_six alert_at_def new_alert_def)

subsection \<open>When a suppression rule matches\<close>

lemma time_based_default:
  "dict_get (time_based rc) True \<longleftrightarrow> time_based rc \<noteq> Some False"
  by (cases "time_based rc") (simp_all add: dict_get_def)

lemma check_rule_Matches_iff:
  "check_rule rc alert = Matches \<longleftrightarrow>
     (\<exists>start_t end_t.
        strptime_HM (dict_get (start_time rc) ''00:00'') = Some start_t
        \<and> strptime_HM (dict_get (end_time rc) ''23:59'') = Some end_t
        \<and> (time_based rc \<noteq> Some False \<longrightarrow>
             start_t \<le> time_of (timestamp alert) \<and> time_of (timestamp alert) \<le> end_t)
        \<and> (\<forall>cs. categories rc = Some cs \<longrightarrow> category alert \<in> set cs)
        \<and> (\<forall>ss. sources rc = Some ss \<longrightarrow> source alert \<in> set ss)
        \<and> (\<forall>vs. severities rc = Some vs \<longrightarrow> severity_value (severity alert) \<in> set vs))"
proof (cases "strptime_HM (dict_get (start_time rc) ''00:00'')")
  case None
  then show ?thesis by (simp add: check_rule_def)
next
  case (Some start_t)
  note st = this
  show ?thesis
  proof (cases "strptime_HM (dict_get (end_time rc) ''23:59'')")
    case None
    with st show ?thesis by (simp add: check_rule_def)
  next
    case (Some end_t)
    with st show ?thesis
      by (auto simp: check_rule_def Let_def time_based_default)
  qed
qed

lemma is_suppressed_loop_iff:
  "is_suppressed_loop rules alert \<longleftrightarrow>
     (\<exists>(rule_name, rc) \<in> set rules. check_rule rc alert = Matches)"
proof (induction rules)
  case Nil
  show ?case by simp
next
  case (Cons entry rules)
  obtain rule_name rc where e: "entry = (rule_name, rc)" by (cases entry)
  show ?case
    unfolding e using Cons.IH by (cases "check_rule rc alert") simp_all
qed

lemma check_night_rule_undeclared:
  "check_rule night_rule_undeclared (alert_at sev now) =
     (if 0 \<le> time_of now \<and> time_of now \<le> 21600000000 then Matches else Continue)"
  by (simp add: check_rule_def night_rule_undeclared_def dict_get_def strptime_midnight
        strptime_six alert_at_def new_alert_def)

subsection \<open>Valid references\<close>

text \<open>
  Valid references are kept by every operation, so in every state reached from a fresh
  manager each reference of the index points into the heap.
\<close>

lemma set_update_subset: "set (AList.update k v al) \<subseteq> insert (k, v) (set al)"
  by (induction al) auto

lemma length_heap_escalate_alert: "length (heap (escalate_alert m r lvl)) = length (heap m)"
  by (simp add: heap_escalate_alert)

lemma refs_valid_fresh_manager: "refs_valid (fresh_manager policy email slack)"
  by (simp add: refs_valid_def fresh_manager_def)

lemma refs_valid_create_alert:
  assumes "refs_valid m"
  shows "refs_valid (snd (snd (create_alert m alert_id now ttl msg sev cat src md dk tgs)))"
proof -
  let ?alert = "new_alert alert_id now ttl msg sev cat src md dk tgs"
  show ?thesis
  proof (cases "is_suppressed m ?alert \<or> is_duplicate m ?alert")
    case True
    then show ?thesis using assms by (auto simp: create_alert_def Let_def)
  next
    case False
    then have acc: "\<not> is_suppressed m ?alert" "\<not> is_duplicate m ?alert" by simp_all
    have idx: "\<forall>(k, r) \<in> set (AList.update alert_id (length (heap m)) (active_alerts m)).
                 r < Suc (length (heap m))"
      using assms set_update_subset [of alert_id "length (heap m)" "active_alerts m"]
      by (fastforce simp: refs_valid_def list_all_iff)
    show ?thesis
      unfolding create_alert_accepted [OF acc]
      using assms idx
      by (auto simp: refs_valid_def list_all_iff less_Suc_eq)
  qed
qed

lemma refs_valid_notification_worker:
  assumes "refs_valid m"
  shows "refs_valid (notification_worker m)"
proof (cases "alert_queue m")
  case Nil
  then show ?thesis using assms by (simp add: notification_worker_def)
next
  case (Cons r queue)
  let ?mq = "m\<lparr>alert_queue := queue\<rparr>"
  have w: "notification_worker m = process_alert ?mq r"
    by (simp add: notification_worker_def Cons)
  have r: "r < length (heap m)" and q: "\<forall>r' \<in> set queue. r' < length (heap m)"
    using assms Cons by (simp_all add: refs_valid_def list_all_iff)
  have t: "\<forall>(due, r', lvl) \<in> set (timers (process_alert ?mq r)). r' < length (heap m)"
    using assms r
    by (auto simp: timers_process_alert refs_valid_def list_all_iff
          dest: refs_arm_timers split: option.splits)
  show ?thesis
    unfolding w using assms q t
    by (simp add: refs_valid_def list_all_iff process_alert_frame)
qed

lemma refs_valid_apply_operation:
  assumes "refs_valid m"
  shows "refs_valid (apply_operation m opn)"
proof (cases opn)
  case (Create alert_id now ttl msg sev cat src md dk tgs)
  then show ?thesis using refs_valid_create_alert [OF assms] by simp
next
  case Worker
  then show ?thesis using refs_valid_notification_worker [OF assms] by simp
next
  case (Acknowledge alert_id actor now)
  then show ?thesis
    using assms by (simp add: refs_valid_def acknowledge_alert_frame)
next
  case (Resolve alert_id actor nts now)
  then show ?thesis
    using assms by (simp add: refs_valid_def resolve_alert_frame)
next
  case (Escalate r lvl)
  then show ?thesis
    using assms
    by (simp add: refs_valid_def escalate_alert_frame length_heap_escalate_alert)
qed

lemma refs_valid_run:
  "refs_valid m \<Longrightarrow> refs_valid (foldl apply_operation m ops)"
  by (induction ops arbitrary: m) (simp_all add: refs_valid_apply_operation)

lemma refs_valid_index:
  "refs_valid m \<Longrightarrow> map_of (active_alerts m) alert_id = Some r \<Longrightarrow> r < length (heap m)"
  by (auto simp: refs_valid_def list_all_iff dest: map_of_SomeD)

subsection \<open>Fields that no operation changes\<close>

lemma nth_update_field:
  assumes "f x = f (xs ! i)"
  shows "f ((xs[i := x]) ! j) = f (xs ! j)"
proof (cases "i < length xs")
  case True
  then show ?thesis using assms by (cases "i = j") simp_all
next
  case False
  then show ?thesis by (simp add: list_update_beyond)
qed

lemma fixed_fields_acknowledge_alert:
  "severity (heap (snd (acknowledge_alert m alert_id actor now)) ! r) = severity (heap m ! r)
   \<and> timestamp (heap (snd (acknowledge_alert m alert_id actor now)) ! r)
       = timestamp (heap m ! r)
   \<and> id' (heap (snd (acknowledge_alert m alert_id actor now)) ! r) = id' (heap m ! r)"
proof (cases "map_of (active_alerts m) alert_id")
  case None
  then show ?thesis by (simp add: acknowledge_alert_def)
next
  case (Some r')
  show ?thesis
    unfolding acknowledge_alert_known [OF Some]
    by (simp add: nth_update_field)
qed

lemma fixed_fields_resolve_alert:
  "severity (heap (snd (resolve_alert m alert_id actor notes now)) ! r)
     = severity (heap m ! r)
   \<and> timestamp (heap (snd (resolve_alert m alert_id actor notes now)) ! r)
       = timestamp (heap m ! r)
   \<and> id' (heap (snd (resolve_alert m alert_id actor notes now)) ! r) = id' (heap m ! r)"
proof (cases "map_of (active_alerts m) alert_id")
  case None
  then show ?thesis by (simp add: resolve_alert_def)
next
  case (Some r')
  show ?thesis
    unfolding resolve_alert_known [OF Some]
    by (simp add: nth_update_field)
qed

lemma fixed_fields_escalate_alert:
  "severity (heap (escalate_alert m r' lvl) ! r) = severity (heap m ! r)
   \<and> timestamp (heap (escalate_alert m r' lvl) ! r) = timestamp (heap m ! r)
   \<and> id' (heap (escalate_alert m r' lvl) ! r) = id' (heap m ! r)"
  unfolding heap_escalate_alert by (simp add: nth_update_field)

lemma fixed_fields_apply_operation:
  assumes "r < length (heap m)"
  shows "severity (heap (apply_operation m opn) ! r) = severity (heap m ! r)
         \<and> timestamp (heap (apply_operation m opn) ! r) = timestamp (heap m ! r)
         \<and> id' (heap (apply_operation m opn) ! r) = id' (heap m ! r)"
proof (cases opn)
  case (Create alert_id now ttl msg sev cat src md dk tgs)
  then show ?thesis using assms by (simp add: nth_heap_create_alert)
next
  case Worker
  then show ?thesis by (simp add: heap_notification_worker)
next
  case (Acknowledge alert_id actor now)
  then show ?thesis using fixed_fields_acknowledge_alert by simp
next
  case (Resolve alert_id actor nts now)
  then show ?thesis using fixed_fields_resolve_alert by simp
next
  case (Escalate r' lvl)
  then show ?thesis using fixed_fields_escalate_alert by simp
qed

lemma policies_create_alert:
  "escalation_policies (snd (snd (create_alert m alert_id now ttl msg sev cat src md dk tgs)))
     = escalation_policies m
   \<and> timers (snd (snd (create_alert m alert_id now ttl msg sev cat src md dk tgs)))
       = timers m
   \<and> notification_channels'
         (snd (snd (create_alert m alert_id now ttl msg sev cat src md dk tgs)))
       = notification_channels' m"
  by (simp add: create_alert_def save_alert_def Let_def)

lemma policies_apply_operation:
  "escalation_policies (apply_operation m opn) = escalation_policies m"
proof (cases opn)
  case (Create alert_id now ttl msg sev cat src md dk tgs)
  then show ?thesis by (simp add: policies_create_alert)
next
  case Worker
  then show ?thesis by (simp add: notification_worker_frame)
next
  case (Acknowledge alert_id actor now)
  then show ?thesis by (simp add: acknowledge_alert_frame)
next
  case (Resolve alert_id actor nts now)
  then show ?thesis by (simp add: resolve_alert_frame)
next
  case (Escalate r lvl)
  then show ?thesis by (simp add: escalate_alert_frame)
qed

lemma length_heap_run:
  "length (heap m) \<le> length (heap (foldl apply_operation m ops))"
proof (induction ops arbitrary: m)
  case Nil
  show ?case by simp
next
  case (Cons opn ops)
  show ?case
    using Cons [of "apply_operation m opn"] length_heap_apply_operation [of m opn] by simp
qed

lemma fixed_fields_run:
  "r < length (heap m) \<Longrightarrow>
   severity (heap (foldl apply_operation m ops) ! r) = severity (heap m ! r)
   \<and> timestamp (heap (foldl apply_operation m ops) ! r) = timestamp (heap m ! r)
   \<and> id' (heap (foldl apply_operation m ops) ! r) = id' (heap m ! r)"
proof (induction ops arbitrary: m)
  case Nil
  show ?case by simp
next
  case (Cons opn ops)
  have len: "r < length (heap (apply_operation m opn))"
    using Cons.prems length_heap_apply_operation [of m opn] by simp
  show ?case
    using Cons.IH [OF len] fixed_fields_apply_operation [OF Cons.prems, of opn] by simp
qed

lemma policies_run:
  "escalation_policies (foldl apply_operation m ops) = escalation_policies m"
  by (induction ops arbitrary: m) (simp_all add: policies_apply_operation)

lemma timestamp_defined_apply_operation:
  "timestamp_defined (apply_operation m opn) = timestamp_defined m"
proof (cases opn)
  case (Create alert_id now ttl msg sev cat src md dk tgs)
  then show ?thesis by (simp add: create_alert_def save_alert_def Let_def)
next
  case Worker
  then show ?thesis
    by (simp add: notification_worker_def timestamp_defined_process_alert
          split: list.splits)
next
  case (Acknowledge alert_id actor now)
  then show ?thesis
    by (simp add: acknowledge_alert_def save_alert_def Let_def split: option.splits)
next
  case (Resolve alert_id actor nts now)
  then show ?thesis
    by (simp add: resolve_alert_def save_alert_def Let_def split: option.splits)
next
  case (Escalate r lvl)
  then show ?thesis by (simp add: timestamp_defined_escalate_alert)
qed

lemma timestamp_defined_run:
  "timestamp_defined (foldl apply_operation m ops) = timestamp_defined m"
  by (induction ops arbitrary: m) (simp_all add: timestamp_defined_apply_operation)

subsection \<open>One id for each alert of the index\<close>

lemma distinct_values_update:
  "distinct (map snd al) \<Longrightarrow> v \<notin> snd ` set al \<Longrightarrow>
   distinct (map snd (AList.update k v al))"
proof (induction al)
  case Nil
  show ?case by simp
next
  case (Cons entry al)
  obtain k' v' where e: "entry = (k', v')" by (cases entry)
  have sub: "snd ` set (AList.update k v al) \<subseteq> insert v (snd ` set al)"
    using set_update_subset [of k v al] by auto
  show ?case
    using Cons sub unfolding e by (auto simp: image_iff)
qed

lemma index_unique_fresh_manager: "index_unique (fresh_manager policy email slack)"
  by (simp add: index_unique_def fresh_manager_def)

lemma index_unique_create_alert:
  assumes "refs_valid m" and "index_unique m"
  shows "index_unique (snd (snd (create_alert m alert_id now ttl msg sev cat src md dk tgs)))"
proof -
  let ?alert = "new_alert alert_id now ttl msg sev cat src md dk tgs"
  show ?thesis
  proof (cases "is_suppressed m ?alert \<or> is_duplicate m ?alert")
    case True
    then show ?thesis using assms(2) by (auto simp: create_alert_def Let_def)
  next
    case False
    then have acc: "\<not> is_suppressed m ?alert" "\<not> is_duplicate m ?alert" by simp_all
    have new: "length (heap m) \<notin> snd ` set (active_alerts m)"
      using assms(1) by (fastforce simp: refs_valid_def list_all_iff)
    show ?thesis
      unfolding create_alert_accepted [OF acc] index_unique_def
      using distinct_values_update [OF assms(2) [unfolded index_unique_def] new]
      by simp
  qed
qed

lemma index_unique_apply_operation:
  assumes "refs_valid m" and "index_unique m"
  shows "index_unique (apply_operation m opn)"
proof (cases opn)
  case (Create alert_id now ttl msg sev cat src md dk tgs)
  then show ?thesis using index_unique_create_alert [OF assms] by simp
next
  case Worker
  then show ?thesis using assms(2) by (simp add: index_unique_def notification_worker_frame)
next
  case (Acknowledge alert_id actor now)
  then show ?thesis using assms(2) by (simp add: index_unique_def acknowledge_alert_frame)
next
  case (Resolve alert_id actor nts now)
  then show ?thesis using assms(2) by (simp add: index_unique_def resolve_alert_frame)
next
  case (Escalate r lvl)
  then show ?thesis using assms(2) by (simp add: index_unique_def escalate_alert_frame)
qed

lemma index_unique_run:
  "refs_valid m \<Longrightarrow> index_unique m \<Longrightarrow> index_unique (foldl apply_operation m ops)"
  by (induction ops arbitrary: m)
     (simp_all add: index_unique_apply_operation refs_valid_apply_operation)

lemma index_unique_key:
  assumes "index_unique m"
    and "map_of (active_alerts m) alert_id = Some r"
    and "map_of (active_alerts m) k = Some r"
  shows "k = alert_id"
proof -
  have a: "(alert_id, r) \<in> set (active_alerts m)" and b: "(k, r) \<in> set (active_alerts m)"
    using assms(2,3) by (auto dest: map_of_SomeD)
  have "inj_on snd (set (active_alerts m))"
    using assms(1) by (simp add: index_unique_def distinct_map)
  from inj_onD [OF this _ b a] show ?thesis by simp
qed

subsection \<open>A resolved alert that is not acknowledged again\<close>

lemma nth_update_cases:
  "(xs[i := x]) ! j = (if i = j \<and> i < length xs then x else xs ! j)"
  by (cases "i < length xs") (simp_all add: nth_list_update list_update_beyond)

lemma index_create_alert:
  assumes "r < length (heap m)"
    and "map_of (active_alerts
           (snd (snd (create_alert m new_id now ttl msg sev cat src md dk tgs)))) k = Some r"
  shows "map_of (active_alerts m) k = Some r"
proof -
  let ?alert = "new_alert new_id now ttl msg sev cat src md dk tgs"
  show ?thesis
  proof (cases "is_suppressed m ?alert \<or> is_duplicate m ?alert")
    case True
    then show ?thesis using assms(2) by (auto simp: create_alert_def Let_def split: if_splits)
  next
    case False
    then have acc: "\<not> is_suppressed m ?alert" "\<not> is_duplicate m ?alert" by simp_all
    show ?thesis
      using assms unfolding create_alert_accepted [OF acc]
      by (simp add: update_conv' split: if_splits)
  qed
qed

lemma terminal_kept_apply_operation:
  assumes len: "r < length (heap m)"
    and st: "status (heap m ! r) \<in> {RESOLVED, CLOSED}"
    and key: "\<forall>k. map_of (active_alerts m) k = Some r \<longrightarrow> k = alert_id"
    and op: "\<not> acknowledges alert_id opn"
  shows "r < length (heap (apply_operation m opn))
         \<and> status (heap (apply_operation m opn) ! r) \<in> {RESOLVED, CLOSED}
         \<and> (\<forall>k. map_of (active_alerts (apply_operation m opn)) k = Some r \<longrightarrow> k = alert_id)"
proof -
  have L: "r < length (heap (apply_operation m opn))"
    using len length_heap_apply_operation [of m opn] by simp
  have S: "status (heap (apply_operation m opn) ! r) \<in> {RESOLVED, CLOSED}"
  proof (cases opn)
    case (Create new_id now ttl msg sev cat src md dk tgs)
    then show ?thesis using len st by (simp add: nth_heap_create_alert)
  next
    case Worker
    then show ?thesis using st by (simp add: heap_notification_worker)
  next
    case (Acknowledge k actor now)
    then have ne: "k \<noteq> alert_id" using op by simp
    show ?thesis
    proof (cases "map_of (active_alerts m) k")
      case None
      then show ?thesis using st Acknowledge by (simp add: acknowledge_alert_def)
    next
      case (Some r')
      then have "r' \<noteq> r" using key ne by auto
      then show ?thesis
        using st Acknowledge
        by (simp add: acknowledge_alert_known [OF Some] nth_update_cases)
    qed
  next
    case (Resolve k actor nts now)
    show ?thesis
    proof (cases "map_of (active_alerts m) k")
      case None
      then show ?thesis using st Resolve by (simp add: resolve_alert_def)
    next
      case (Some r')
      show ?thesis
        using st Resolve
        by (simp add: resolve_alert_known [OF Some] nth_update_cases)
    qed
  next
    case (Escalate r' lvl)
    show ?thesis
    proof (cases "r' = r")
      case True
      then show ?thesis using st Escalate by (simp add: heap_escalate_alert)
    next
      case False
      then show ?thesis using st Escalate
        by (simp add: heap_escalate_alert nth_update_cases)
    qed
  qed
  have K: "\<forall>k. map_of (active_alerts (apply_operation m opn)) k = Some r \<longrightarrow> k = alert_id"
  proof (cases opn)
    case (Create new_id now ttl msg sev cat src md dk tgs)
    then show ?thesis using key index_create_alert [OF len] by auto
  next
    case Worker
    then show ?thesis using key by (simp add: notification_worker_frame)
  next
    case (Acknowledge k actor now)
    then show ?thesis using key by (simp add: acknowledge_alert_frame)
  next
    case (Resolve k actor nts now)
    then show ?thesis using key by (simp add: resolve_alert_frame)
  next
    case (Escalate r' lvl)
    then show ?thesis using key by (simp add: escalate_alert_frame)
  qed
  from L S K show ?thesis by (intro conjI)
qed

lemma terminal_kept_run:
  "r < length (heap m) \<Longrightarrow>
   status (heap m ! r) \<in> {RESOLVED, CLOSED} \<Longrightarrow>
   \<forall>k. map_of (active_alerts m) k = Some r \<longrightarrow> k = alert_id \<Longrightarrow>
   \<forall>opn \<in> set ops. \<not> acknowledges alert_id opn \<Longrightarrow>
   status (heap (foldl apply_operation m ops) ! r) \<in> {RESOLVED, CLOSED}"
proof (induction ops arbitrary: m)
  case Nil
  then show ?case by simp
next
  case (Cons opn ops)
  have op: "\<not> acknowledges alert_id opn" using Cons.prems(4) by simp
  note step = terminal_kept_apply_operation [OF Cons.prems(1,2,3) op]
  have rest: "\<forall>opn \<in> set ops. \<not> acknowledges alert_id opn" using Cons.prems(4) by simp
  show ?case
    using Cons.IH [OF conjunct1 [OF step] conjunct1 [OF conjunct2 [OF step]]
            conjunct2 [OF conjunct2 [OF step]] rest]
    by simp
qed

lemma fire_timer_terminal:
  assumes "i < length (timers m)" and "timers m ! i = (due, r, lvl)"
    and "status (heap m ! r) \<in> {RESOLVED, CLOSED}"
  shows "send_log (fire_timer m i) = send_log m
         \<and> db_notifications (fire_timer m i) = db_notifications m
         \<and> heap (fire_timer m i) = heap m"
  using assms by (auto simp: fire_timer_def escalate_alert_def Let_def)

subsection \<open>Rows written and sends made\<close>

lemma db_notifications_notify_escalation:
  "db_notifications (notify_escalation r chans m) =
     db_notifications m
       @ map (\<lambda>c. (id' (heap m ! r), c, ''system'', ''escalated'', None))
           (filter (\<lambda>c. case notification_channels' m c of
                           None \<Rightarrow> False
                         | Some obj \<Rightarrow> obj (heap m ! r) True = Sent) chans)"
proof (induction r chans m rule: notify_escalation.induct)
  case (1 r m)
  show ?case by simp
next
  case (2 r chan chans m)
  show ?case
  proof (cases "notification_channels' m chan")
    case None
    with 2 show ?thesis by simp
  next
    case (Some obj)
    show ?thesis
    proof (cases "obj (heap m ! r) True")
      case Sent
      with Some 2(2) [OF Some refl refl Sent] show ?thesis
        by (simp add: save_notification_def Let_def cong: option.case_cong)
    next
      case (Raised e)
      with Some 2(3) [OF Some refl refl Raised] show ?thesis
        by (simp add: Let_def cong: option.case_cong)
    qed
  qed
qed

lemma db_notifications_escalate_alert:
  assumes "r < length (heap m)"
    and "status (heap m ! r) \<notin> {RESOLVED, CLOSED}"
    and "get_escalation_policy m (severity (heap m ! r)) = Some policy"
    and "notification_channels policy lvl = Some chans"
  shows "db_notifications (escalate_alert m r lvl) =
           db_notifications m
             @ map (\<lambda>c. (id' (heap m ! r), c, ''system'', ''escalated'', None))
                 (filter (\<lambda>c. case notification_channels' m c of
                                 None \<Rightarrow> False
                               | Some obj \<Rightarrow>
                                   obj ((heap m ! r)
                                          \<lparr>escalation_level := lvl, status := ESCALATED\<rparr>) True
                                     = Sent) chans)"
proof -
  let ?m1 = "m\<lparr>heap := (heap m)[r := (heap m ! r)\<lparr>escalation_level := lvl, status := ESCALATED\<rparr>]\<rparr>"
  have "db_notifications (escalate_alert m r lvl)
          = db_notifications (notify_escalation r chans ?m1)"
    using assms(2,3,4)
    by (simp add: escalate_alert_def Let_def execute_escalation_action_def
          split: option.splits)
  then show ?thesis
    using assms(1) by (simp add: db_notifications_notify_escalation cong: option.case_cong)
qed

lemma logs_process_alert:
  "send_log (process_alert m r) = send_log (send_initial_notifications m r)
   \<and> db_notifications (process_alert m r)
       = db_notifications (send_initial_notifications m r)"
  by (simp add: process_alert_def schedule_escalation_def split: option.splits prod.splits)

lemma scenario_worker_logs:
  "send_log (notification_worker
               (with_alert (fresh_manager scenario_policy always_sends always_sends)
                  alert_id dk))
     = [(EMAIL, alert_id, False)]
   \<and> db_notifications
        (notification_worker
           (with_alert (fresh_manager scenario_policy always_sends always_sends)
              alert_id dk))
     = [(alert_id, EMAIL, ''system'', ''sent'', None)]"
  by (simp only: worker_with_alert logs_process_alert, unfold with_alert_fresh,
      simp add: send_initial_notifications_def get_escalation_policy_def fresh_manager_def
        scenario_policy_def dict_get_def always_sends_def save_notification_def
        new_alert_def Let_def)

lemma scenario_worker_setup:
  "escalation_policies
     (notification_worker (with_alert (fresh_manager policy email slack) alert_id dk))
     = [(name policy, policy)]
   \<and> notification_channels'
        (notification_worker (with_alert (fresh_manager policy email slack) alert_id dk))
     = [EMAIL \<mapsto> email, SLACK \<mapsto> slack]"
  by (simp only: notification_worker_frame, unfold with_alert_fresh,
      simp add: fresh_manager_def)

subsection \<open>Callbacks in level order\<close>

lemma sorted_level_trace:
  "r < length (heap m) \<Longrightarrow>
   sorted (escalation_level (heap m ! r) # escalations_of r ops) \<Longrightarrow>
   sorted (level_trace m r ops)"
proof (induction ops arbitrary: m)
  case Nil
  show ?case by simp
next
  case (Cons opn ops)
  let ?c = "escalation_level (heap m ! r)"
  let ?m' = "apply_operation m opn"
  let ?c' = "escalation_level (heap ?m' ! r)"
  have len: "r < length (heap ?m')"
    using Cons.prems(1) length_heap_apply_operation [of m opn] by simp
  have step: "?c' = ?c \<or> (\<exists>lvl. opn = Escalate r lvl \<and> ?c' = lvl)"
    using level_apply_operation [OF Cons.prems(1)] .
  have below: "\<forall>x \<in> set (escalations_of r (opn # ops)). ?c \<le> x"
    using Cons.prems(2) by simp
  have srt': "sorted (?c' # escalations_of r ops)"
    using step
  proof
    assume "?c' = ?c"
    then show ?thesis using sorted_escalations_of_Cons [OF Cons.prems(2)] by simp
  next
    assume "\<exists>lvl. opn = Escalate r lvl \<and> ?c' = lvl"
    then obtain lvl where "opn = Escalate r lvl" "?c' = lvl" by blast
    then show ?thesis using Cons.prems(2) by simp
  qed
  have le': "?c \<le> ?c'"
    using step
  proof
    assume "?c' = ?c"
    then show ?thesis by simp
  next
    assume "\<exists>lvl. opn = Escalate r lvl \<and> ?c' = lvl"
    then obtain lvl where o: "opn = Escalate r lvl" and l: "?c' = lvl" by blast
    have "lvl \<in> set (escalations_of r (opn # ops))" unfolding o by simp
    with below have "?c \<le> lvl" by blast
    with l show ?thesis by simp
  qed
  have rest: "sorted (level_trace ?m' r ops)"
    using Cons.IH [OF len srt'] .
  have "\<forall>x \<in> set (level_trace ?m' r ops). ?c \<le> x"
  proof
    fix x assume "x \<in> set (level_trace ?m' r ops)"
    then have "x = ?c' \<or> x \<in> set (escalations_of r ops)"
      using level_trace_subset [OF len, of ops] by auto
    then show "?c \<le> x"
      using le' below set_escalations_of_Cons [of r ops opn] by auto
  qed
  with rest show ?case by simp
qed

section \<open>Deduplication\<close>

text \<open>
  Claim C1, as stated: \<open>is_duplicate\<close> is true iff the dedup key is non-null and some
  alert of the index with status new, acknowledged, in progress or escalated has the same
  key. The code differs at two inputs. After the only alert with key \<open>db-down\<close> has been
  escalated, a new alert with that key is not judged a duplicate; and an alert whose key
  is the empty string is not judged a duplicate of an open alert with the empty key.
\<close>

theorem is_duplicate_escalated_counterexample:
  "status (heap (escalate_alert
       (with_alert (fresh_manager scenario_policy always_sends always_sends)
          ''a1'' (Some ''db-down'')) 0 1) ! 0) = ESCALATED
   \<and> is_duplicate_spec
        (escalate_alert
          (with_alert (fresh_manager scenario_policy always_sends always_sends)
             ''a1'' (Some ''db-down'')) 0 1)
        (probe_alert (Some ''db-down''))
   \<and> \<not> is_duplicate
        (escalate_alert
          (with_alert (fresh_manager scenario_policy always_sends always_sends)
             ''a1'' (Some ''db-down'')) 0 1)
        (probe_alert (Some ''db-down''))
   \<and> is_duplicate_spec
        (with_alert (fresh_manager scenario_policy always_sends always_sends)
           ''a1'' (Some []))
        (probe_alert (Some []))
   \<and> \<not> is_duplicate
        (with_alert (fresh_manager scenario_policy always_sends always_sends)
           ''a1'' (Some []))
        (probe_alert (Some []))"
proof -
  let ?m1 = "with_alert (fresh_manager scenario_policy always_sends always_sends)
               ''a1'' (Some ''db-down'')"
  let ?a1 = "new_alert ''a1'' scenario_start ''disk'' ''disk full'' HIGH ''system'' ''server-01''
               None (Some ''db-down'') None"
  have pol: "get_escalation_policy ?m1 HIGH = Some scenario_policy"
    by (simp add: scenario_lookup) (simp add: scenario_policy_def)
  have h: "heap ?m1 = [?a1]" and a: "active_alerts ?m1 = [(''a1'', 0)]"
    by (simp_all add: with_alert_fresh)
  have e: "heap (escalate_alert ?m1 0 1) = [?a1\<lparr>escalation_level := 1, status := ESCALATED\<rparr>]"
    unfolding heap_escalate_alert h using pol
    by (simp add: h new_alert_def) (simp add: scenario_policy_def)
  show ?thesis
    by (simp add: is_duplicate_def is_duplicate_spec_def escalate_alert_frame e a)
       (simp add: with_alert_fresh probe_alert_def new_alert_def)
qed

text \<open>
  Claim C1, amended: \<open>is_duplicate\<close> is false whenever the dedup key is null or the
  empty string; for a non-empty key it is true if some alert of the index with status new,
  acknowledged or in progress has the same key, and false if no alert of the index with
  status new, acknowledged, in progress or escalated has the same key.
\<close>

theorem is_duplicate_open_match:
  "(dedup_key alert = None \<or> dedup_key alert = Some [] \<longrightarrow> \<not> is_duplicate m alert)
   \<and> (dedup_key alert \<noteq> None \<and> dedup_key alert \<noteq> Some []
       \<and> (\<exists>(k, r) \<in> set (active_alerts m).
             dedup_key (heap m ! r) = dedup_key alert
             \<and> status (heap m ! r) \<in> {NEW, ACKNOWLEDGED, IN_PROGRESS})
       \<longrightarrow> is_duplicate m alert)
   \<and> (\<not> (\<exists>(k, r) \<in> set (active_alerts m).
             dedup_key (heap m ! r) = dedup_key alert
             \<and> status (heap m ! r) \<in> {NEW, ACKNOWLEDGED, IN_PROGRESS, ESCALATED})
       \<longrightarrow> \<not> is_duplicate m alert)"
proof -
  have code: "is_duplicate m alert \<longleftrightarrow>
     dedup_key alert \<noteq> None \<and> dedup_key alert \<noteq> Some []
     \<and> (\<exists>(k, r) \<in> set (active_alerts m).
             dedup_key (heap m ! r) = dedup_key alert
             \<and> status (heap m ! r) \<in> {NEW, ACKNOWLEDGED, IN_PROGRESS})"
    by (simp add: is_duplicate_def list_ex_iff)
  show ?thesis
    unfolding code by fastforce
qed

theorem is_duplicate_open_match_witness:
  "\<not> is_duplicate (fresh_manager scenario_policy always_sends always_sends)
       (probe_alert None)
   \<and> is_duplicate
        (with_alert (fresh_manager scenario_policy always_sends always_sends)
           ''a1'' (Some ''db-down''))
        (probe_alert (Some ''db-down''))
   \<and> \<not> is_duplicate
        (with_alert (fresh_manager scenario_policy always_sends always_sends)
           ''a1'' (Some ''db-down''))
        (probe_alert (Some ''disk''))"
proof -
  let ?m0 = "fresh_manager scenario_policy always_sends always_sends"
  let ?m1 = "with_alert ?m0 ''a1'' (Some ''db-down'')"
  have h1: "dedup_key (probe_alert None) = None"
    by (simp add: probe_alert_def new_alert_def)
  have h2: "dedup_key (probe_alert (Some ''db-down'')) \<noteq> None
       \<and> dedup_key (probe_alert (Some ''db-down'')) \<noteq> Some []
       \<and> (\<exists>(k, r) \<in> set (active_alerts ?m1).
             dedup_key (heap ?m1 ! r) = dedup_key (probe_alert (Some ''db-down''))
             \<and> status (heap ?m1 ! r) \<in> {NEW, ACKNOWLEDGED, IN_PROGRESS})"
    by (simp add: with_alert_fresh probe_alert_def new_alert_def)
  have h3: "\<not> (\<exists>(k, r) \<in> set (active_alerts ?m1).
             dedup_key (heap ?m1 ! r) = dedup_key (probe_alert (Some ''disk''))
             \<and> status (heap ?m1 ! r) \<in> {NEW, ACKNOWLEDGED, IN_PROGRESS, ESCALATED})"
    by (simp add: with_alert_fresh probe_alert_def new_alert_def)
  have c1: "\<not> is_duplicate ?m0 (probe_alert None)"
    by (rule mp [OF conjunct1 [OF is_duplicate_open_match]]) (simp add: h1)
  have c2: "is_duplicate ?m1 (probe_alert (Some ''db-down''))"
    by (rule mp [OF conjunct1 [OF conjunct2 [OF is_duplicate_open_match]]]) (rule h2)
  have c3: "\<not> is_duplicate ?m1 (probe_alert (Some ''disk''))"
    by (rule mp [OF conjunct2 [OF conjunct2 [OF is_duplicate_open_match]]]) (rule h3)
  from c1 c2 c3 show ?thesis by (intro conjI)
qed

section \<open>Scheduling of escalations\<close>

text \<open>
  Claim C2, as stated: when \<open>create_alert\<close> accepts an alert, a timer is armed for
  every level from 1 to the policy's \<open>max_escalation_level\<close> that has a time
  threshold. Under a policy with thresholds of 300 seconds at level 1, \<open>10^12\<close> seconds
  at level 2 and 600 seconds at level 3, and an alert created on 2026-01-01, the due
  time of level 2 lies beyond \<open>datetime.max\<close>: the addition raises \<open>OverflowError\<close>, \<open>process_alert\<close> catches
  it, and the only timer armed is that of level 1, although level 3 has a threshold and
  is within \<open>max_escalation_level\<close>.
\<close>

theorem timers_stop_at_overflow_counterexample:
  "time_thresholds overflow_policy (Level 3) = Some 600
   \<and> 3 \<le> max_escalation_level overflow_policy
   \<and> timers (notification_worker
        (with_alert (fresh_manager overflow_policy always_sends always_sends) ''a1'' None))
      = [(scenario_start + 300000000, 0, 1)]"
proof -
  let ?m1 = "with_alert (fresh_manager overflow_policy always_sends always_sends) ''a1'' None"
  let ?a1 = "new_alert ''a1'' scenario_start ''disk'' ''disk full'' HIGH ''system'' ''server-01''
               None None None"
  have a: "time_thresholds overflow_policy (Level 3) = Some 600"
    and mx: "max_escalation_level overflow_policy = 5"
    by (simp_all add: overflow_policy_def)
  have h1: "heap (?m1\<lparr>alert_queue := []\<rparr>) ! 0 = ?a1" by (simp add: with_alert_fresh)
  have t1: "timers (?m1\<lparr>alert_queue := []\<rparr>) = []"
    unfolding with_alert_fresh by (simp add: fresh_manager_def)
  have sv: "severity ?a1 = HIGH" "timestamp ?a1 = scenario_start"
    by (simp_all add: new_alert_def)
  have df: "timestamp_defined (?m1\<lparr>alert_queue := []\<rparr>) = utc_timestamp_defined"
    unfolding with_alert_fresh by (simp add: fresh_manager_def)
  have pol: "get_escalation_policy (?m1\<lparr>alert_queue := []\<rparr>) HIGH = Some overflow_policy"
    using scenario_lookup [of overflow_policy always_sends always_sends "''a1''" None]
    by (simp add: get_escalation_policy_def) (simp add: overflow_policy_def)
  have t: "timers (notification_worker ?m1) = [(scenario_start + 300000000, 0, 1)]"
    unfolding worker_with_alert timers_process_alert h1 sv pol df
    by (simp add: t1 mx upto_1_5)
       (simp add: overflow_policy_def sv datetime_add_def timedelta_in_range_def
          timedelta_seconds_def datetime_max_def day_length_def scenario_start_def
          utc_timestamp_defined_def new_alert_def)
  from a mx t show ?thesis by simp
qed

text \<open>
  Claim C2, amended: when \<open>create_alert\<close> accepts an alert and, after whatever else
  the manager is asked to do, a notification worker takes it from the queue, timers are
  armed for the levels from 1 to the policy's \<open>max_escalation_level\<close> in increasing
  order: one for each level that has a time threshold, due at the creation timestamp plus
  that threshold, up to but not including the first level whose due time is not
  representable: the sum is beyond \<open>datetime.max\<close>, or \<open>.timestamp()\<close> cannot
  convert it (that level and all higher ones get no timer). So when every due time is
  representable, each level from 1 to \<open>max_escalation_level\<close> with a
  threshold gets exactly one timer. A timer that goes off calls \<open>escalate_alert\<close> with
  its alert and level; and that call, for an alert that is neither resolved nor closed
  and a level with channels in the policy, sets the status to escalated and the
  escalation level to the level, and calls \<open>send\<close>, flagged as an escalation, on each
  configured channel of the level in order.
\<close>

theorem schedule_escalation_arms_timers:
  assumes "\<not> is_suppressed m (new_alert alert_id now ttl msg sev cat src md dk tgs)"
    and "\<not> is_duplicate m (new_alert alert_id now ttl msg sev cat src md dk tgs)"
    and "get_escalation_policy m sev = Some policy"
    and "alert_queue
           (foldl apply_operation
              (snd (snd (create_alert m alert_id now ttl msg sev cat src md dk tgs))) ops)
         = length (heap m) # queue"
  shows "(let m2 = foldl apply_operation
                     (snd (snd (create_alert m alert_id now ttl msg sev cat src md dk tgs)))
                     ops;
              m' = notification_worker m2;
              r = length (heap m);
              levels = [1 .. max_escalation_level policy]
          in timers m' =
               timers m2
                 @ List.map_filter (timer_for policy now r)
                     (takeWhile (due_representable (timestamp_defined m) policy now) levels)
             \<and> ((\<forall>lvl \<in> set levels. due_representable (timestamp_defined m) policy now lvl) \<longrightarrow>
                  timers m' = timers m2 @ List.map_filter (timer_for policy now r) levels)
             \<and> (\<forall>i due r' lvl.
                   i < length (timers m') \<and> timers m' ! i = (due, r', lvl) \<longrightarrow>
                   fire_timer m' i =
                     escalate_alert
                       (m'\<lparr>timers := take i (timers m') @ drop (Suc i) (timers m')\<rparr>) r' lvl)
             \<and> (\<forall>m3 lvl chans.
                   r < length (heap m3)
                   \<and> status (heap m3 ! r) \<notin> {RESOLVED, CLOSED}
                   \<and> get_escalation_policy m3 (severity (heap m3 ! r)) = Some policy
                   \<and> notification_channels policy lvl = Some chans \<longrightarrow>
                   status (heap (escalate_alert m3 r lvl) ! r) = ESCALATED
                   \<and> escalation_level (heap (escalate_alert m3 r lvl) ! r) = lvl
                   \<and> send_log (escalate_alert m3 r lvl) =
                       send_log m3 @ map (\<lambda>c. (c, id' (heap m3 ! r), True))
                         (filter (\<lambda>c. notification_channels' m3 c \<noteq> None) chans)))"
proof -
  let ?alert = "new_alert alert_id now ttl msg sev cat src md dk tgs"
  let ?m1 = "snd (snd (create_alert m alert_id now ttl msg sev cat src md dk tgs))"
  let ?m2 = "foldl apply_operation ?m1 ops"
  let ?r = "length (heap m)"
  let ?levels = "[1 .. max_escalation_level policy]"
  have m1: "?m1 = m\<lparr>heap := heap m @ [?alert],
             active_alerts := AList.update alert_id ?r (active_alerts m),
             db_alerts := db_alerts m @ [?alert],
             alert_queue := alert_queue m @ [?r]\<rparr>"
    using assms(1,2) by (rule create_alert_accepted)
  have len1: "?r < length (heap ?m1)" by (simp add: m1)
  have al1: "heap ?m1 ! ?r = ?alert" by (simp add: m1)
  have sv: "severity ?alert = sev" "timestamp ?alert = now" by (simp_all add: new_alert_def)
  note ff = fixed_fields_run [OF len1, of ops]
  have sev2: "severity (heap ?m2 ! ?r) = sev" using ff al1 sv by simp
  have ts2: "timestamp (heap ?m2 ! ?r) = now" using ff al1 sv by simp
  have ps2: "escalation_policies ?m2 = escalation_policies m"
    by (simp add: policies_run m1)
  let ?m2q = "?m2\<lparr>alert_queue := queue\<rparr>"
  have w: "notification_worker ?m2 = process_alert ?m2q ?r"
    by (simp add: notification_worker_def assms(4))
  have hq: "heap ?m2q = heap ?m2" and tq: "timers ?m2q = timers ?m2" by simp_all
  have pol: "get_escalation_policy ?m2q sev = Some policy"
    using assms(3) ps2 by (simp add: get_escalation_policy_def)
  have df: "timestamp_defined ?m2q = timestamp_defined m"
    by (simp add: timestamp_defined_run m1)
  have t: "timers (notification_worker ?m2) =
             timers ?m2 @ List.map_filter (timer_for policy now ?r)
                            (takeWhile (due_representable (timestamp_defined m) policy now) ?levels)"
    unfolding w timers_process_alert
    by (simp add: sev2 pol fst_arm_timers ts2 df)
  have t': "(\<forall>lvl \<in> set ?levels. due_representable (timestamp_defined m) policy now lvl) \<longrightarrow>
              timers (notification_worker ?m2) =
                timers ?m2 @ List.map_filter (timer_for policy now ?r) ?levels"
  proof
    assume "\<forall>lvl \<in> set ?levels. due_representable (timestamp_defined m) policy now lvl"
    then have eq: "takeWhile (due_representable (timestamp_defined m) policy now) ?levels = ?levels"
      by (simp add: takeWhile_eq_all_conv)
    show "timers (notification_worker ?m2) =
                timers ?m2 @ List.map_filter (timer_for policy now ?r) ?levels"
      by (simp only: t eq)
  qed
  show ?thesis
    unfolding Let_def
  proof (intro conjI allI impI)
    show "timers (notification_worker ?m2) =
             timers ?m2 @ List.map_filter (timer_for policy now ?r)
                            (takeWhile (due_representable (timestamp_defined m) policy now) ?levels)"
      by (rule t)
  next
    assume "\<forall>lvl \<in> set ?levels. due_representable (timestamp_defined m) policy now lvl"
    then show "timers (notification_worker ?m2) =
                timers ?m2 @ List.map_filter (timer_for policy now ?r) ?levels"
      using t' by blast
  next
    fix i due r' lvl
    assume "i < length (timers (notification_worker ?m2))
            \<and> timers (notification_worker ?m2) ! i = (due, r', lvl)"
    then show "fire_timer (notification_worker ?m2) i =
        escalate_alert
          ((notification_worker ?m2)\<lparr>timers := take i (timers (notification_worker ?m2))
               @ drop (Suc i) (timers (notification_worker ?m2))\<rparr>) r' lvl"
      by (simp add: fire_timer_def)
  next
    fix m3 lvl chans
    assume h: "?r < length (heap m3)
                   \<and> status (heap m3 ! ?r) \<notin> {RESOLVED, CLOSED}
                   \<and> get_escalation_policy m3 (severity (heap m3 ! ?r)) = Some policy
                   \<and> notification_channels policy lvl = Some chans"
    then show "status (heap (escalate_alert m3 ?r lvl) ! ?r) = ESCALATED"
      using escalate_alert_sets(1) by blast
    from h show "escalation_level (heap (escalate_alert m3 ?r lvl) ! ?r) = lvl"
      using escalate_alert_sets(2) by blast
    from h show "send_log (escalate_alert m3 ?r lvl) =
                       send_log m3 @ map (\<lambda>c. (c, id' (heap m3 ! ?r), True))
                         (filter (\<lambda>c. notification_channels' m3 c \<noteq> None) chans)"
      using send_log_escalate_alert by blast
  qed
qed

text \<open>
  The specification's second scenario: a high-severity alert created on 2026-01-01 under a
  policy with \<open>time_thresholds = {1: 300}\<close>, e-mail at level 0, Slack and e-mail at
  level 1. E-mail is sent once at level 0, one timer is armed, for level 1 at 300 seconds
  after the creation, and when it goes off Slack and e-mail are sent as escalations and the alert is
  escalated at level 1.
\<close>

theorem schedule_escalation_arms_timers_witness:
  "(let m = fresh_manager scenario_policy always_sends always_sends;
        m' = notification_worker (with_alert m ''a1'' None)
    in \<not> is_suppressed m
            (new_alert ''a1'' scenario_start ''disk'' ''disk full'' HIGH ''system'' ''server-01''
               None None None)
       \<and> \<not> is_duplicate m
            (new_alert ''a1'' scenario_start ''disk'' ''disk full'' HIGH ''system'' ''server-01''
               None None None)
       \<and> get_escalation_policy m HIGH = Some scenario_policy
       \<and> alert_queue (with_alert m ''a1'' None) = [0]
       \<and> (\<forall>lvl \<in> set [1 .. max_escalation_level scenario_policy].
             due_representable (timestamp_defined m) scenario_policy scenario_start lvl)
       \<and> send_log m' = [(EMAIL, ''a1'', False)]
       \<and> timers m' = [(scenario_start + 300000000, 0, 1)]
       \<and> status (heap (fire_timer m' 0) ! 0) = ESCALATED
       \<and> escalation_level (heap (fire_timer m' 0) ! 0) = 1
       \<and> send_log (fire_timer m' 0)
           = [(EMAIL, ''a1'', False), (SLACK, ''a1'', True), (EMAIL, ''a1'', True)])"
proof -
  let ?m0 = "fresh_manager scenario_policy always_sends always_sends"
  let ?a1 = "new_alert ''a1'' scenario_start ''disk'' ''disk full'' HIGH ''system'' ''server-01''
               None None None"
  let ?m1 = "with_alert ?m0 ''a1'' None"
  let ?m2 = "notification_worker ?m1"
  let ?m2t = "?m2\<lparr>timers := take 0 (timers ?m2) @ drop (Suc 0) (timers ?m2)\<rparr>"
  have ns: "\<not> is_suppressed ?m0 ?a1"
    by (simp add: is_suppressed_def fresh_manager_def)
  have nd: "\<not> is_duplicate ?m0 ?a1"
    by (simp add: is_duplicate_def fresh_manager_def)
  have pol: "get_escalation_policy ?m0 HIGH = Some scenario_policy"
    by (simp add: get_escalation_policy_def fresh_manager_def) (simp add: scenario_policy_def)
  have hl: "length (heap ?m0) = 0" by (simp add: fresh_manager_def)
  have q1: "alert_queue ?m1 = [0]" by (simp add: with_alert_fresh)
  have q: "alert_queue
             (foldl apply_operation
                (snd (snd (create_alert ?m0 ''a1'' scenario_start ''disk'' ''disk full'' HIGH
                             ''system'' ''server-01'' None None None))) [])
           = length (heap ?m0) # []"
    by (simp only: foldl_Nil with_alert_def [symmetric] q1 hl)
  have mx: "max_escalation_level scenario_policy = 5" by (simp add: scenario_policy_def)
  have t1: "timers ?m1 = []"
    unfolding with_alert_fresh by (simp add: fresh_manager_def)
  note T = schedule_escalation_arms_timers [OF ns nd pol q, unfolded Let_def foldl_Nil,
             folded with_alert_def, unfolded hl]
  have df: "timestamp_defined ?m0 = utc_timestamp_defined" by (simp add: fresh_manager_def)
  have rep: "\<forall>lvl \<in> set [1 .. max_escalation_level scenario_policy].
               due_representable (timestamp_defined ?m0) scenario_policy scenario_start lvl"
    unfolding mx upto_1_5 df
    by (simp add: due_representable_def scenario_policy_def datetime_add_def
          timedelta_in_range_def timedelta_seconds_def datetime_max_def day_length_def
          scenario_start_def utc_timestamp_defined_def)
  have ev: "List.map_filter (timer_for scenario_policy scenario_start 0)
              [1 .. max_escalation_level scenario_policy]
            = [(scenario_start + 300000000, 0, 1)]"
    unfolding mx upto_1_5
    by (simp add: List.map_filter_simps timer_for_def scenario_policy_def
          timedelta_seconds_def)
  have tm: "timers ?m2 = [(scenario_start + 300000000, 0, 1)]"
    using mp [OF conjunct1 [OF conjunct2 [OF T]] rep] unfolding ev t1 by simp
  have f: "fire_timer ?m2 0 = escalate_alert ?m2t 0 1"
    using conjunct1 [OF conjunct2 [OF conjunct2 [OF T]], rule_format,
            of 0 "scenario_start + 300000000" 0 1]
    by (simp add: tm)
  have hp: "heap ?m2t = [?a1]"
    by (simp add: heap_notification_worker with_alert_fresh)
  have sv: "severity ?a1 = HIGH" "status ?a1 = NEW" "id' ?a1 = ''a1''"
    by (simp_all add: new_alert_def)
  have pol2: "get_escalation_policy ?m2t HIGH = Some scenario_policy"
    using scenario_lookup [of scenario_policy always_sends always_sends "''a1''" None]
    by (simp add: get_escalation_policy_def notification_worker_frame)
       (simp add: scenario_policy_def)
  have ch: "notification_channels scenario_policy 1 = Some [SLACK, EMAIL]"
    by (simp add: scenario_policy_def)
  have hyp: "0 < length (heap ?m2t)
             \<and> status (heap ?m2t ! 0) \<notin> {RESOLVED, CLOSED}
             \<and> get_escalation_policy ?m2t (severity (heap ?m2t ! 0)) = Some scenario_policy
             \<and> notification_channels scenario_policy 1 = Some [SLACK, EMAIL]"
    unfolding hp using pol2 ch by (simp add: sv)
  note E = mp [OF spec [OF spec [OF spec [OF conjunct2 [OF conjunct2 [OF conjunct2 [OF T]]]]]]
               hyp]
  have nc: "notification_channels' ?m2t = [EMAIL \<mapsto> always_sends, SLACK \<mapsto> always_sends]"
    by (simp add: scenario_worker_setup)
  have s0: "send_log ?m2 = [(EMAIL, ''a1'', False)]"
    by (simp add: scenario_worker_logs)
  have s0t: "send_log ?m2t = [(EMAIL, ''a1'', False)]"
    using s0 by simp
  have c2: "status (heap (fire_timer ?m2 0) ! 0) = ESCALATED"
    unfolding f using E by simp
  have c3: "escalation_level (heap (fire_timer ?m2 0) ! 0) = 1"
    unfolding f using E by simp
  have c4: "send_log (fire_timer ?m2 0)
              = [(EMAIL, ''a1'', False), (SLACK, ''a1'', True), (EMAIL, ''a1'', True)]"
    unfolding f conjunct2 [OF conjunct2 [OF E]] s0t nc hp
    by (simp add: sv)
  from ns nd pol q1 rep s0 tm c2 c3 c4 show ?thesis
    unfolding Let_def by (intro conjI)
qed

section \<open>Resolved and closed alerts\<close>

text \<open>
  Claim C3, as stated: once an alert's status is resolved or closed, no acknowledge,
  resolve or escalate changes its status or its escalation level; in particular
  acknowledging a resolved alert does not move it back to acknowledged. In the code a
  resolved alert stays in the index, and \<open>acknowledge_alert\<close> sets its status to
  acknowledged.
\<close>

theorem acknowledge_resolved_counterexample:
  "status (heap (snd (resolve_alert
       (with_alert (fresh_manager scenario_policy always_sends always_sends) ''a1'' None)
       ''a1'' ''ops'' None 100000000)) ! 0) = RESOLVED
   \<and> acknowledge_alert
        (snd (resolve_alert
          (with_alert (fresh_manager scenario_policy always_sends always_sends) ''a1'' None)
          ''a1'' ''ops'' None 100000000))
        ''a1'' ''alice'' 200000000
      \<noteq> (False,
          snd (resolve_alert
            (with_alert (fresh_manager scenario_policy always_sends always_sends)
               ''a1'' None)
            ''a1'' ''ops'' None 100000000))
   \<and> status (heap (snd (acknowledge_alert
        (snd (resolve_alert
          (with_alert (fresh_manager scenario_policy always_sends always_sends) ''a1'' None)
          ''a1'' ''ops'' None 100000000))
        ''a1'' ''alice'' 200000000)) ! 0) = ACKNOWLEDGED"
proof -
  let ?m1 = "with_alert (fresh_manager scenario_policy always_sends always_sends) ''a1'' None"
  let ?m2 = "snd (resolve_alert ?m1 ''a1'' ''ops'' None 100000000)"
  have i1: "map_of (active_alerts ?m1) ''a1'' = Some 0"
    by (simp add: with_alert_fresh)
  have i2: "map_of (active_alerts ?m2) ''a1'' = Some 0"
    by (simp add: resolve_alert_frame i1)
  have l1: "length (heap ?m1) = 1" by (simp add: with_alert_fresh)
  have l2: "length (heap ?m2) = 1" by (simp add: resolve_alert_frame l1)
  have s2: "status (heap ?m2 ! 0) = RESOLVED"
    unfolding resolve_alert_known [OF i1] using l1 by simp
  have s3: "status (heap (snd (acknowledge_alert ?m2 ''a1'' ''alice'' 200000000)) ! 0)
              = ACKNOWLEDGED"
    unfolding acknowledge_alert_known [OF i2] using l2 by simp
  have r3: "fst (acknowledge_alert ?m2 ''a1'' ''alice'' 200000000)"
    using i2 by (simp add: acknowledge_alert_def Let_def)
  then have ne: "acknowledge_alert ?m2 ''a1'' ''alice'' 200000000 \<noteq> (False, ?m2)"
    by (metis fst_conv)
  from s2 ne s3 show ?thesis by (intro conjI)
qed

text \<open>
  Claim C3, amended: for an alert whose status is resolved or closed, \<open>escalate_alert\<close>
  changes neither its status nor its escalation level (it changes nothing at all), and
  \<open>acknowledge_alert\<close> and \<open>resolve_alert\<close> never change any alert's escalation
  level. They do not look at the current status: called for an alert of the index, they
  set its status to acknowledged (resp. resolved) whatever it was before.
\<close>

theorem terminal_status_frame:
  "(status (heap m ! r) \<in> {RESOLVED, CLOSED} \<longrightarrow> escalate_alert m r lvl = m)
   \<and> escalation_level (heap (snd (acknowledge_alert m alert_id actor now)) ! r')
       = escalation_level (heap m ! r')
   \<and> escalation_level (heap (snd (resolve_alert m alert_id actor notes now)) ! r')
       = escalation_level (heap m ! r')
   \<and> (map_of (active_alerts m) alert_id = Some r \<and> r < length (heap m) \<longrightarrow>
        status (heap (snd (acknowledge_alert m alert_id actor now)) ! r) = ACKNOWLEDGED
        \<and> status (heap (snd (resolve_alert m alert_id actor notes now)) ! r) = RESOLVED)"
proof -
  have A: "status (heap m ! r) \<in> {RESOLVED, CLOSED} \<longrightarrow> escalate_alert m r lvl = m"
    by (auto simp: escalate_alert_def Let_def)
  have B: "escalation_level (heap (snd (acknowledge_alert m alert_id actor now)) ! r')
       = escalation_level (heap m ! r')"
    by (rule level_acknowledge_alert)
  have C: "escalation_level (heap (snd (resolve_alert m alert_id actor notes now)) ! r')
       = escalation_level (heap m ! r')"
    by (rule level_resolve_alert)
  have D: "map_of (active_alerts m) alert_id = Some r \<and> r < length (heap m) \<longrightarrow>
        status (heap (snd (acknowledge_alert m alert_id actor now)) ! r) = ACKNOWLEDGED
        \<and> status (heap (snd (resolve_alert m alert_id actor notes now)) ! r) = RESOLVED"
    by (auto simp: acknowledge_alert_known resolve_alert_known)
  from A B C D show ?thesis by (intro conjI)
qed

theorem terminal_status_frame_witness:
  "status (heap (snd (resolve_alert
       (with_alert (fresh_manager scenario_policy always_sends always_sends) ''a1'' None)
       ''a1'' ''ops'' None 100000000)) ! 0) \<in> {RESOLVED, CLOSED}
   \<and> escalate_alert
        (snd (resolve_alert
          (with_alert (fresh_manager scenario_policy always_sends always_sends) ''a1'' None)
          ''a1'' ''ops'' None 100000000)) 0 1
      = snd (resolve_alert
          (with_alert (fresh_manager scenario_policy always_sends always_sends) ''a1'' None)
          ''a1'' ''ops'' None 100000000)
   \<and> map_of (active_alerts
        (with_alert (fresh_manager scenario_policy always_sends always_sends) ''a1'' None))
        ''a1'' = Some 0
   \<and> status (heap (snd (acknowledge_alert
        (with_alert (fresh_manager scenario_policy always_sends always_sends) ''a1'' None)
        ''a1'' ''alice'' 5)) ! 0) = ACKNOWLEDGED
   \<and> status (heap (snd (resolve_alert
        (with_alert (fresh_manager scenario_policy always_sends always_sends) ''a1'' None)
        ''a1'' ''alice'' None 5)) ! 0) = RESOLVED"
proof -
  let ?m1 = "with_alert (fresh_manager scenario_policy always_sends always_sends) ''a1'' None"
  let ?m2 = "snd (resolve_alert ?m1 ''a1'' ''ops'' None 100000000)"
  have i1: "map_of (active_alerts ?m1) ''a1'' = Some 0"
    by (simp add: with_alert_fresh)
  have l1: "0 < length (heap ?m1)" by (simp add: with_alert_fresh)
  have s2: "status (heap ?m2 ! 0) \<in> {RESOLVED, CLOSED}"
    unfolding resolve_alert_known [OF i1] using l1 by simp
  note T = terminal_status_frame
  have c1: "escalate_alert ?m2 0 1 = ?m2"
    by (rule mp [OF conjunct1 [OF T] s2])
  note D = mp [OF conjunct2 [OF conjunct2 [OF conjunct2 [OF T]]] conjI [OF i1 l1]]
  from s2 c1 i1 D [of "''alice''" 5 None] show ?thesis
    by (elim conjE) (intro conjI, assumption+)
qed

section \<open>Escalation levels over time\<close>

text \<open>
  Claim C4, as stated: the escalation levels an alert takes over any sequence of
  operations are non-decreasing, whatever the order in which the timers of its levels go
  off. With a policy whose level 2 is due at 300 seconds and whose level 1 is due at 600
  seconds, the worker arms both timers, the callback of level 2 runs first and the
  callback of level 1 afterwards: the alert goes from level 0 to 2 and then down to 1.
\<close>

theorem escalation_level_decreases_counterexample:
  "timers (notification_worker
            (with_alert (fresh_manager crossed_policy always_sends always_sends)
               ''a1'' None))
     = [(scenario_start + 600000000, 0, 1), (scenario_start + 300000000, 0, 2)]
   \<and> level_trace
        (with_alert (fresh_manager crossed_policy always_sends always_sends) ''a1'' None)
        0 [Worker, Escalate 0 2, Escalate 0 1]
     = [0, 0, 2, 1]"
proof -
  let ?m1 = "with_alert (fresh_manager crossed_policy always_sends always_sends) ''a1'' None"
  let ?a1 = "new_alert ''a1'' scenario_start ''disk'' ''disk full'' HIGH ''system'' ''server-01''
               None None None"
  let ?m2 = "notification_worker ?m1"
  let ?m3 = "escalate_alert ?m2 0 2"
  let ?m4 = "escalate_alert ?m3 0 1"
  have pol1: "get_escalation_policy ?m1 HIGH = Some crossed_policy"
    by (simp add: scenario_lookup) (simp add: crossed_policy_def)
  have h1: "heap ?m1 = [?a1]" by (simp add: with_alert_fresh)
  have q1: "alert_queue ?m1 = [0]" by (simp add: with_alert_fresh)
  have t1: "timers ?m1 = []"
    unfolding with_alert_fresh by (simp add: fresh_manager_def)
  have sv: "severity ?a1 = HIGH" "timestamp ?a1 = scenario_start" "status ?a1 = NEW"
    "escalation_level ?a1 = 0"
    by (simp_all add: new_alert_def)
  have pol1q: "get_escalation_policy (?m1\<lparr>alert_queue := []\<rparr>) HIGH = Some crossed_policy"
    using pol1 by (simp add: get_escalation_policy_def)
  have w: "?m2 = process_alert (?m1\<lparr>alert_queue := []\<rparr>) 0"
    by (simp add: notification_worker_def q1)
  have mx: "max_escalation_level crossed_policy = 5" by (simp add: crossed_policy_def)
  have df: "timestamp_defined (?m1\<lparr>alert_queue := []\<rparr>) = utc_timestamp_defined"
    unfolding with_alert_fresh by (simp add: fresh_manager_def)
  have t2: "timers ?m2
              = [(scenario_start + 600000000, 0, 1), (scenario_start + 300000000, 0, 2)]"
    unfolding w timers_process_alert df
    by (simp add: h1 sv pol1q t1 mx upto_1_5)
       (simp add: crossed_policy_def sv datetime_add_def timedelta_in_range_def
          timedelta_seconds_def datetime_max_def day_length_def scenario_start_def
          utc_timestamp_defined_def new_alert_def)
  have h2: "heap ?m2 = [?a1]" by (simp add: heap_notification_worker h1)
  have pol2: "get_escalation_policy ?m2 HIGH = Some crossed_policy"
    using pol1 by (simp add: get_escalation_policy_def notification_worker_frame)
  have c2: "notification_channels crossed_policy 2 = Some [EMAIL]"
    and c1: "notification_channels crossed_policy 1 = Some [EMAIL]"
    by (simp_all add: crossed_policy_def)
  have h3: "heap ?m3 = [?a1\<lparr>escalation_level := 2, status := ESCALATED\<rparr>]"
    by (subst heap_escalate_alert_open [where policy = crossed_policy and chans = "[EMAIL]"])
       (simp_all add: h2 sv pol2 c2)
  have pol3: "get_escalation_policy ?m3 HIGH = Some crossed_policy"
    using pol2 by (simp add: get_escalation_policy_def escalate_alert_frame)
  have h4: "heap ?m4 = [?a1\<lparr>escalation_level := 1, status := ESCALATED\<rparr>]"
    by (subst heap_escalate_alert_open [where policy = crossed_policy and chans = "[EMAIL]"])
       (simp_all add: h3 sv pol3 c1)
  have tr: "level_trace ?m1 0 [Worker, Escalate 0 2, Escalate 0 1] = [0, 0, 2, 1]"
    by (simp add: h1 h2 h3 h4 sv)
  from t2 tr show ?thesis by (intro conjI)
qed

text \<open>
  Claim C4, amended: an alert's escalation level is changed only by a timer callback for
  that alert, and the callback, when the alert is neither resolved nor closed and its
  policy has channels for the level, sets it to the callback's level without comparing
  it with the current one (otherwise it leaves it). Over any run of create, worker,
  acknowledge, resolve and callback operations in which the callbacks for the alert carry
  levels in non-decreasing order, none below the alert's level at the start, the levels
  the alert takes are non-decreasing.
\<close>

theorem escalation_level_changes:
  "(r < length (heap m) \<longrightarrow>
      escalation_level (heap (apply_operation m opn) ! r) = escalation_level (heap m ! r)
      \<or> (\<exists>lvl. opn = Escalate r lvl
                \<and> escalation_level (heap (apply_operation m opn) ! r) = lvl))
   \<and> (r < length (heap m) \<longrightarrow>
        escalation_level (heap (apply_operation m (Escalate r lvl)) ! r) =
          (if status (heap m ! r) \<notin> {RESOLVED, CLOSED}
              \<and> (\<exists>policy. get_escalation_policy m (severity (heap m ! r)) = Some policy
                            \<and> notification_channels policy lvl \<noteq> None)
           then lvl else escalation_level (heap m ! r)))
   \<and> (r < length (heap m)
        \<and> sorted (escalation_level (heap m ! r) # escalations_of r ops) \<longrightarrow>
        sorted (level_trace m r ops))"
proof -
  have A: "r < length (heap m) \<longrightarrow>
      escalation_level (heap (apply_operation m opn) ! r) = escalation_level (heap m ! r)
      \<or> (\<exists>lvl. opn = Escalate r lvl
                \<and> escalation_level (heap (apply_operation m opn) ! r) = lvl)"
    using level_apply_operation by blast
  have B: "r < length (heap m) \<longrightarrow>
        escalation_level (heap (apply_operation m (Escalate r lvl)) ! r) =
          (if status (heap m ! r) \<notin> {RESOLVED, CLOSED}
              \<and> (\<exists>policy. get_escalation_policy m (severity (heap m ! r)) = Some policy
                            \<and> notification_channels policy lvl \<noteq> None)
           then lvl else escalation_level (heap m ! r))"
    by (auto simp: heap_escalate_alert)
  have C: "r < length (heap m)
        \<and> sorted (escalation_level (heap m ! r) # escalations_of r ops) \<longrightarrow>
        sorted (level_trace m r ops)"
    using sorted_level_trace by blast
  from A B C show ?thesis by (intro conjI)
qed

text \<open>
  Under the policy with channels at levels 1 and 2: the worker's turn, the callback of
  level 1, an acknowledgement and the callback of level 2 take the alert through the
  levels 0, 0, 1, 1, 2.
\<close>

theorem escalation_level_changes_witness:
  "(let m = with_alert (fresh_manager crossed_policy always_sends always_sends) ''a1'' None;
        ops = [Worker, Escalate 0 1,
               Acknowledge ''a1'' ''alice'' (scenario_start + 400000000), Escalate 0 2]
    in 0 < length (heap m)
       \<and> sorted (escalation_level (heap m ! 0) # escalations_of 0 ops)
       \<and> sorted (level_trace m 0 ops)
       \<and> level_trace m 0 ops = [0, 0, 1, 1, 2]
       \<and> escalation_level
             (heap (apply_operation m (Acknowledge ''a1'' ''alice'' scenario_start)) ! 0)
           = escalation_level (heap m ! 0)
       \<and> status (heap m ! 0) \<notin> {RESOLVED, CLOSED}
       \<and> get_escalation_policy m (severity (heap m ! 0)) = Some crossed_policy
       \<and> notification_channels crossed_policy 2 \<noteq> None
       \<and> escalation_level (heap (apply_operation m (Escalate 0 2)) ! 0) = 2)"
proof -
  let ?m1 = "with_alert (fresh_manager crossed_policy always_sends always_sends) ''a1'' None"
  let ?ops = "[Worker, Escalate 0 1,
               Acknowledge ''a1'' ''alice'' (scenario_start + 400000000), Escalate 0 2]"
  let ?a1 = "new_alert ''a1'' scenario_start ''disk'' ''disk full'' HIGH ''system'' ''server-01''
               None None None"
  let ?m2 = "notification_worker ?m1"
  let ?m3 = "escalate_alert ?m2 0 1"
  let ?m4 = "snd (acknowledge_alert ?m3 ''a1'' ''alice'' (scenario_start + 400000000))"
  let ?m5 = "escalate_alert ?m4 0 2"
  note T = escalation_level_changes
  have h1: "heap ?m1 = [?a1]" by (simp add: with_alert_fresh)
  have len: "0 < length (heap ?m1)" unfolding h1 by simp
  have sv: "severity ?a1 = HIGH" "status ?a1 = NEW" "escalation_level ?a1 = 0"
    by (simp_all add: new_alert_def)
  have srt: "sorted (escalation_level (heap ?m1 ! 0) # escalations_of 0 ?ops)"
    unfolding h1 by (simp add: sv)
  have c1: "sorted (level_trace ?m1 0 ?ops)"
    by (rule mp [OF conjunct2 [OF conjunct2 [OF T]] conjI [OF len srt]])
  have pol1: "get_escalation_policy ?m1 HIGH = Some crossed_policy"
    by (simp add: scenario_lookup) (simp add: crossed_policy_def)
  have ch: "notification_channels crossed_policy 1 = Some [EMAIL]"
    "notification_channels crossed_policy 2 = Some [EMAIL]"
    by (simp_all add: crossed_policy_def)
  have h2: "heap ?m2 = [?a1]" by (simp add: heap_notification_worker h1)
  have pol2: "get_escalation_policy ?m2 HIGH = Some crossed_policy"
    using pol1 by (simp add: get_escalation_policy_def notification_worker_frame)
  have h3: "heap ?m3 = [?a1\<lparr>escalation_level := 1, status := ESCALATED\<rparr>]"
    by (subst heap_escalate_alert_open [where policy = crossed_policy and chans = "[EMAIL]"])
       (simp_all add: h2 sv pol2 ch)
  have i3: "map_of (active_alerts ?m3) ''a1'' = Some 0"
    by (simp add: escalate_alert_frame notification_worker_frame with_alert_fresh)
  have h4: "heap ?m4 = [?a1\<lparr>escalation_level := 1, status := ACKNOWLEDGED,
                             acknowledged_by := Some ''alice'',
                             acknowledged_at := Some (scenario_start + 400000000)\<rparr>]"
    unfolding acknowledge_alert_known [OF i3] h3 by simp
  have pol4: "get_escalation_policy ?m4 HIGH = Some crossed_policy"
    using pol2
    by (simp add: get_escalation_policy_def acknowledge_alert_frame escalate_alert_frame)
  have h5: "heap ?m5 = [?a1\<lparr>escalation_level := 2, status := ESCALATED,
                             acknowledged_by := Some ''alice'',
                             acknowledged_at := Some (scenario_start + 400000000)\<rparr>]"
    by (subst heap_escalate_alert_open [where policy = crossed_policy and chans = "[EMAIL]"])
       (simp_all add: h4 sv pol4 ch)
  have tr: "level_trace ?m1 0 ?ops = [0, 0, 1, 1, 2]"
    by (simp add: h1 h2 h3 h4 h5 sv)
  have c2: "escalation_level
              (heap (apply_operation ?m1 (Acknowledge ''a1'' ''alice'' scenario_start)) ! 0)
              = escalation_level (heap ?m1 ! 0)"
    using mp [OF conjunct1 [OF T] len, of "Acknowledge ''a1'' ''alice'' scenario_start"] by simp
  have st1: "status (heap ?m1 ! 0) \<notin> {RESOLVED, CLOSED}" unfolding h1 by (simp add: sv)
  have p1: "get_escalation_policy ?m1 (severity (heap ?m1 ! 0)) = Some crossed_policy"
    unfolding h1 using pol1 by (simp add: sv)
  have n2: "notification_channels crossed_policy 2 \<noteq> None" by (simp add: ch)
  have c3: "escalation_level (heap (apply_operation ?m1 (Escalate 0 2)) ! 0) = 2"
    using mp [OF conjunct1 [OF conjunct2 [OF T]] len, of 2] st1 p1 n2 by simp
  from len srt c1 tr c2 st1 p1 n2 c3 show ?thesis
    unfolding Let_def by (intro conjI)
qed

section \<open>Escalation of a resolved or closed alert\<close>

text \<open>
  Claim C5, as stated: \<open>escalate_alert\<close> for a resolved or closed alert changes
  nothing, so that once \<open>resolve_alert\<close> has returned, a pending timer that goes off
  later produces no notifications. The first part holds; the conclusion does not, because
  a resolved alert stays in the index and \<open>acknowledge_alert\<close> puts it back to
  acknowledged. The alert is created on 2026-01-01 and the worker arms the level-1 timer
  for 300 seconds later; it is resolved after 100 seconds and acknowledged after 200
  seconds; when the timer goes off, Slack and e-mail are called and two \<open>escalated\<close>
  rows are written.
\<close>

theorem timer_after_resolve_counterexample:
  "status (heap (snd (resolve_alert
       (notification_worker
         (with_alert (fresh_manager scenario_policy always_sends always_sends)
            ''a1'' None))
       ''a1'' ''ops'' None (scenario_start + 100000000))) ! 0) = RESOLVED
   \<and> timers (snd (acknowledge_alert
        (snd (resolve_alert
          (notification_worker
            (with_alert (fresh_manager scenario_policy always_sends always_sends)
               ''a1'' None))
          ''a1'' ''ops'' None (scenario_start + 100000000)))
        ''a1'' ''alice'' (scenario_start + 200000000)))
      = [(scenario_start + 300000000, 0, 1)]
   \<and> send_log (fire_timer (snd (acknowledge_alert
        (snd (resolve_alert
          (notification_worker
            (with_alert (fresh_manager scenario_policy always_sends always_sends)
               ''a1'' None))
          ''a1'' ''ops'' None (scenario_start + 100000000)))
        ''a1'' ''alice'' (scenario_start + 200000000))) 0)
      = [(EMAIL, ''a1'', False), (SLACK, ''a1'', True), (EMAIL, ''a1'', True)]
   \<and> db_notifications (fire_timer (snd (acknowledge_alert
        (snd (resolve_alert
          (notification_worker
            (with_alert (fresh_manager scenario_policy always_sends always_sends)
               ''a1'' None))
          ''a1'' ''ops'' None (scenario_start + 100000000)))
        ''a1'' ''alice'' (scenario_start + 200000000))) 0)
      = [(''a1'', EMAIL, ''system'', ''sent'', None),
         (''a1'', SLACK, ''system'', ''escalated'', None),
         (''a1'', EMAIL, ''system'', ''escalated'', None)]"
proof -
  let ?a1 = "new_alert ''a1'' scenario_start ''disk'' ''disk full'' HIGH ''system'' ''server-01''
               None None None"
  let ?m2 = "notification_worker
               (with_alert (fresh_manager scenario_policy always_sends always_sends)
                  ''a1'' None)"
  let ?m3 = "snd (resolve_alert ?m2 ''a1'' ''ops'' None (scenario_start + 100000000))"
  let ?m4 = "snd (acknowledge_alert ?m3 ''a1'' ''alice'' (scenario_start + 200000000))"
  let ?m4t = "?m4\<lparr>timers := take 0 (timers ?m4) @ drop (Suc 0) (timers ?m4)\<rparr>"
  have i2: "map_of (active_alerts ?m2) ''a1'' = Some 0"
    by (simp add: scenario_worker_index)
  have h2: "heap ?m2 = [?a1]" by (simp only: scenario_worker_index)
  have i3: "map_of (active_alerts ?m3) ''a1'' = Some 0"
    by (simp add: resolve_alert_frame i2)
  have h3: "heap ?m3 = [?a1\<lparr>status := RESOLVED, resolved_by := Some ''ops'',
                             resolved_at := Some (scenario_start + 100000000)\<rparr>]"
    unfolding resolve_alert_known [OF i2] h2 by simp
  have s3: "status (heap ?m3 ! 0) = RESOLVED" unfolding h3 by simp
  have h4: "heap ?m4 = [?a1\<lparr>status := ACKNOWLEDGED, resolved_by := Some ''ops'',
                             resolved_at := Some (scenario_start + 100000000),
                             acknowledged_by := Some ''alice'',
                             acknowledged_at := Some (scenario_start + 200000000)\<rparr>]"
    unfolding acknowledge_alert_known [OF i3] h3 by simp
  have t4: "timers ?m4 = [(scenario_start + 300000000, 0, 1)]"
    by (simp add: acknowledge_alert_frame resolve_alert_frame scenario_worker_timers)
  have f: "fire_timer ?m4 0 = escalate_alert ?m4t 0 1"
    by (simp add: fire_timer_def t4)
  have h4t: "heap ?m4t = heap ?m4" by simp
  have sv: "severity (heap ?m4t ! 0) = HIGH" "status (heap ?m4t ! 0) = ACKNOWLEDGED"
    "id' (heap ?m4t ! 0) = ''a1''"
    unfolding h4t h4 by (simp_all add: new_alert_def)
  have len: "0 < length (heap ?m4t)" unfolding h4t h4 by simp
  have st: "status (heap ?m4t ! 0) \<notin> {RESOLVED, CLOSED}" unfolding h4t h4 by simp
  have ps: "escalation_policies ?m4t = [(name scenario_policy, scenario_policy)]"
    by (simp add: acknowledge_alert_frame resolve_alert_frame scenario_worker_setup)
  have pol: "get_escalation_policy ?m4t (severity (heap ?m4t ! 0)) = Some scenario_policy"
    unfolding sv get_escalation_policy_def ps by (simp add: scenario_policy_def)
  have ch: "notification_channels scenario_policy 1 = Some [SLACK, EMAIL]"
    by (simp add: scenario_policy_def)
  have nc: "notification_channels' ?m4t = [EMAIL \<mapsto> always_sends, SLACK \<mapsto> always_sends]"
    by (simp add: acknowledge_alert_frame resolve_alert_frame scenario_worker_setup)
  have sl: "send_log ?m4t = [(EMAIL, ''a1'', False)]"
    by (simp add: acknowledge_alert_frame resolve_alert_frame scenario_worker_logs)
  have db: "db_notifications ?m4t = [(''a1'', EMAIL, ''system'', ''sent'', None)]"
    by (simp add: acknowledge_alert_frame resolve_alert_frame scenario_worker_logs)
  have c3: "send_log (fire_timer ?m4 0)
              = [(EMAIL, ''a1'', False), (SLACK, ''a1'', True), (EMAIL, ''a1'', True)]"
    unfolding f send_log_escalate_alert [OF st pol ch] sl nc sv by simp
  have c4: "db_notifications (fire_timer ?m4 0)
              = [(''a1'', EMAIL, ''system'', ''sent'', None),
                 (''a1'', SLACK, ''system'', ''escalated'', None),
                 (''a1'', EMAIL, ''system'', ''escalated'', None)]"
    unfolding f db_notifications_escalate_alert [OF len st pol ch] db nc sv
    by (simp add: always_sends_def)
  from s3 t4 c3 c4 show ?thesis by (intro conjI)
qed

text \<open>
  Claim C5, amended: \<open>escalate_alert\<close> for an alert whose status is resolved or closed
  changes nothing: no channel is called, no notification row is written, and the alert is
  as it was. So a pending timer that goes off while the alert is resolved or closed
  produces no notifications; and after \<open>resolve_alert\<close> has returned for an alert of
  the index, that is the case for every later timer of the alert as long as no
  \<open>acknowledge_alert\<close> for its id comes in between, whatever else the manager is
  asked to do. (The id is the only key under which the index holds the alert, as it is in
  every state reached from a fresh manager.)
\<close>

theorem escalate_alert_terminal_noop:
  "(status (heap m ! r) \<in> {RESOLVED, CLOSED} \<longrightarrow> escalate_alert m r lvl = m)
   \<and> (i < length (timers m) \<and> timers m ! i = (due, r, lvl)
        \<and> status (heap m ! r) \<in> {RESOLVED, CLOSED} \<longrightarrow>
        send_log (fire_timer m i) = send_log m
        \<and> db_notifications (fire_timer m i) = db_notifications m
        \<and> heap (fire_timer m i) = heap m)
   \<and> (map_of (active_alerts m) alert_id = Some r \<and> r < length (heap m)
        \<and> (\<forall>k. map_of (active_alerts m) k = Some r \<longrightarrow> k = alert_id)
        \<and> (\<forall>opn \<in> set ops. \<not> acknowledges alert_id opn) \<longrightarrow>
        status (heap (foldl apply_operation
                        (snd (resolve_alert m alert_id actor notes now)) ops) ! r)
          \<in> {RESOLVED, CLOSED}
        \<and> escalate_alert
              (foldl apply_operation (snd (resolve_alert m alert_id actor notes now)) ops)
              r lvl
            = foldl apply_operation (snd (resolve_alert m alert_id actor notes now)) ops
        \<and> (\<forall>j due'.
              j < length (timers (foldl apply_operation
                                    (snd (resolve_alert m alert_id actor notes now)) ops))
              \<and> timers (foldl apply_operation
                           (snd (resolve_alert m alert_id actor notes now)) ops) ! j
                  = (due', r, lvl) \<longrightarrow>
              send_log (fire_timer
                          (foldl apply_operation
                             (snd (resolve_alert m alert_id actor notes now)) ops) j)
                = send_log (foldl apply_operation
                              (snd (resolve_alert m alert_id actor notes now)) ops)
              \<and> db_notifications
                    (fire_timer
                       (foldl apply_operation
                          (snd (resolve_alert m alert_id actor notes now)) ops) j)
                  = db_notifications
                      (foldl apply_operation
                         (snd (resolve_alert m alert_id actor notes now)) ops)))"
proof -
  have noop: "status (heap m' ! r) \<in> {RESOLVED, CLOSED} \<Longrightarrow> escalate_alert m' r lvl = m'"
    for m'
    by (auto simp: escalate_alert_def Let_def)
  have A: "status (heap m ! r) \<in> {RESOLVED, CLOSED} \<longrightarrow> escalate_alert m r lvl = m"
    using noop by blast
  have B: "i < length (timers m) \<and> timers m ! i = (due, r, lvl)
        \<and> status (heap m ! r) \<in> {RESOLVED, CLOSED} \<longrightarrow>
        send_log (fire_timer m i) = send_log m
        \<and> db_notifications (fire_timer m i) = db_notifications m
        \<and> heap (fire_timer m i) = heap m"
    using fire_timer_terminal by blast
  let ?m1 = "snd (resolve_alert m alert_id actor notes now)"
  let ?m' = "foldl apply_operation ?m1 ops"
  have C: "map_of (active_alerts m) alert_id = Some r \<and> r < length (heap m)
        \<and> (\<forall>k. map_of (active_alerts m) k = Some r \<longrightarrow> k = alert_id)
        \<and> (\<forall>opn \<in> set ops. \<not> acknowledges alert_id opn) \<longrightarrow>
        status (heap ?m' ! r) \<in> {RESOLVED, CLOSED}
        \<and> escalate_alert ?m' r lvl = ?m'
        \<and> (\<forall>j due'.
              j < length (timers ?m') \<and> timers ?m' ! j = (due', r, lvl) \<longrightarrow>
              send_log (fire_timer ?m' j) = send_log ?m'
              \<and> db_notifications (fire_timer ?m' j) = db_notifications ?m')"
  proof
    assume h: "map_of (active_alerts m) alert_id = Some r \<and> r < length (heap m)
        \<and> (\<forall>k. map_of (active_alerts m) k = Some r \<longrightarrow> k = alert_id)
        \<and> (\<forall>opn \<in> set ops. \<not> acknowledges alert_id opn)"
    then have idx: "map_of (active_alerts m) alert_id = Some r"
      and len: "r < length (heap m)"
      and key: "\<forall>k. map_of (active_alerts m) k = Some r \<longrightarrow> k = alert_id"
      and ops: "\<forall>opn \<in> set ops. \<not> acknowledges alert_id opn"
      by simp_all
    have len1: "r < length (heap ?m1)" using len by (simp add: resolve_alert_frame)
    have st1: "status (heap ?m1 ! r) \<in> {RESOLVED, CLOSED}"
      using len by (simp add: resolve_alert_known [OF idx])
    have key1: "\<forall>k. map_of (active_alerts ?m1) k = Some r \<longrightarrow> k = alert_id"
      using key by (simp add: resolve_alert_frame)
    have st: "status (heap ?m' ! r) \<in> {RESOLVED, CLOSED}"
      using terminal_kept_run [OF len1 st1 key1 ops] .
    have e: "escalate_alert ?m' r lvl = ?m'" using noop [OF st] .
    have t: "\<forall>j due'.
              j < length (timers ?m') \<and> timers ?m' ! j = (due', r, lvl) \<longrightarrow>
              send_log (fire_timer ?m' j) = send_log ?m'
              \<and> db_notifications (fire_timer ?m' j) = db_notifications ?m'"
      using fire_timer_terminal [of _ ?m' _ r lvl] st by blast
    from st e t show "status (heap ?m' ! r) \<in> {RESOLVED, CLOSED}
        \<and> escalate_alert ?m' r lvl = ?m'
        \<and> (\<forall>j due'.
              j < length (timers ?m') \<and> timers ?m' ! j = (due', r, lvl) \<longrightarrow>
              send_log (fire_timer ?m' j) = send_log ?m'
              \<and> db_notifications (fire_timer ?m' j) = db_notifications ?m')"
      by (intro conjI)
  qed
  from A B C show ?thesis by (intro conjI)
qed

text \<open>
  The specification's third scenario, with more going on: the alert is resolved after 100
  seconds, then a second alert is created and acknowledged, and then the level-1 timer of
  the first alert goes off.
\<close>

theorem escalate_alert_terminal_noop_witness:
  "(let m = notification_worker
              (with_alert (fresh_manager scenario_policy always_sends always_sends)
                 ''a1'' None);
        ops = [Create ''a2'' (scenario_start + 150000000) ''db'' ''db down'' HIGH
                 ''database'' ''pg'' None None None,
               Acknowledge ''a2'' ''bob'' (scenario_start + 200000000)];
        m' = foldl apply_operation
               (snd (resolve_alert m ''a1'' ''ops'' None (scenario_start + 100000000))) ops
    in map_of (active_alerts m) ''a1'' = Some 0
       \<and> (\<forall>k. map_of (active_alerts m) k = Some 0 \<longrightarrow> k = ''a1'')
       \<and> (\<forall>opn \<in> set ops. \<not> acknowledges ''a1'' opn)
       \<and> timers m' ! 0 = (scenario_start + 300000000, 0, 1)
       \<and> status (heap m' ! 0) \<in> {RESOLVED, CLOSED}
       \<and> escalate_alert m' 0 1 = m'
       \<and> send_log (fire_timer m' 0) = send_log m'
       \<and> db_notifications (fire_timer m' 0) = db_notifications m')"
proof -
  let ?m = "notification_worker
              (with_alert (fresh_manager scenario_policy always_sends always_sends)
                 ''a1'' None)"
  let ?ops = "[Create ''a2'' (scenario_start + 150000000) ''db'' ''db down'' HIGH
                 ''database'' ''pg'' None None None,
               Acknowledge ''a2'' ''bob'' (scenario_start + 200000000)]"
  let ?m1 = "snd (resolve_alert ?m ''a1'' ''ops'' None (scenario_start + 100000000))"
  let ?m' = "foldl apply_operation ?m1 ?ops"
  have idx: "map_of (active_alerts ?m) ''a1'' = Some 0"
    by (simp add: scenario_worker_index)
  have hp: "heap ?m = [new_alert ''a1'' scenario_start ''disk'' ''disk full'' HIGH ''system''
                         ''server-01'' None None None]"
    by (simp only: scenario_worker_index)
  have len: "0 < length (heap ?m)" unfolding hp by simp
  have key: "\<forall>k. map_of (active_alerts ?m) k = Some 0 \<longrightarrow> k = ''a1''"
    by (simp add: scenario_worker_index)
  have ops: "\<forall>opn \<in> set ?ops. \<not> acknowledges ''a1'' opn"
    by simp
  have tm: "timers ?m' = [(scenario_start + 300000000, 0, 1)]"
    by (simp add: acknowledge_alert_frame policies_create_alert resolve_alert_frame
          scenario_worker_timers)
  have t0: "0 < length (timers ?m') \<and> timers ?m' ! 0 = (scenario_start + 300000000, 0, 1)"
    unfolding tm by simp
  note C = mp [OF conjunct2 [OF conjunct2 [OF escalate_alert_terminal_noop]]
               conjI [OF idx conjI [OF len conjI [OF key ops]]]]
  have c1: "status (heap ?m' ! 0) \<in> {RESOLVED, CLOSED}"
    by (rule conjunct1 [OF C])
  have c2: "escalate_alert ?m' 0 1 = ?m'"
    by (rule conjunct1 [OF conjunct2 [OF C]])
  have c3: "send_log (fire_timer ?m' 0) = send_log ?m'
            \<and> db_notifications (fire_timer ?m' 0) = db_notifications ?m'"
    by (rule mp [OF spec [OF spec [OF conjunct2 [OF conjunct2 [OF C]]]] t0])
  from idx key ops t0 c1 c2 c3 show ?thesis
    unfolding Let_def by (intro conjI) simp_all
qed

section \<open>Suppression rules\<close>

text \<open>
  Claim C6, as stated: the time window of a rule is a clause only if the rule declares
  \<open>time_based\<close>, so a rule without the flag applies no time-window check. The code
  reads the flag with \<open>rule_config.get('time_based', True)\<close>: a rule with a window
  from 00:00 to 06:00 and no \<open>time_based\<close> key, which has no other clause and so would
  suppress every alert, does not suppress an alert created at noon.
\<close>

theorem is_suppressed_undeclared_window_counterexample:
  "time_based night_rule_undeclared = None
   \<and> is_suppressed_spec (manager_with_rule night_rule_undeclared)
        (alert_at HIGH 43200000000)
   \<and> \<not> is_suppressed (manager_with_rule night_rule_undeclared)
          (alert_at HIGH 43200000000)"
proof -
  have a: "time_based night_rule_undeclared = None"
    by (simp add: night_rule_undeclared_def)
  have b: "is_suppressed_spec (manager_with_rule night_rule_undeclared)
             (alert_at HIGH 43200000000)"
    by (simp add: is_suppressed_spec_def manager_with_rule_def rule_matches_spec_def
          night_rule_undeclared_def)
  have c: "\<not> is_suppressed (manager_with_rule night_rule_undeclared)
               (alert_at HIGH 43200000000)"
    by (simp add: is_suppressed_def manager_with_rule_def check_night_rule_undeclared
          time_of_def day_length_def)
  from a b c show ?thesis by (intro conjI)
qed

text \<open>
  Claim C6, amended: \<open>is_suppressed\<close> is true iff some configured rule matches, where a
  rule matches when its \<open>start_time\<close> and \<open>end_time\<close> (by default 00:00 and 23:59)
  both parse as \<open>%H:%M\<close>, the alert's time of day lies in that window unless the rule
  sets \<open>time_based\<close> to false (an absent flag counts as true), and the alert's
  category, source and severity value are members of the rule's \<open>categories\<close>,
  \<open>sources\<close> and \<open>severities\<close> lists, each only if the rule has that list. Rules
  are tried in order and the first match decides.
\<close>

theorem is_suppressed_iff_rule_matches:
  "is_suppressed m alert \<longleftrightarrow>
     (\<exists>(rule_name, rc) \<in> set (suppression_rules' m).
        \<exists>start_t end_t.
          strptime_HM (dict_get (start_time rc) ''00:00'') = Some start_t
          \<and> strptime_HM (dict_get (end_time rc) ''23:59'') = Some end_t
          \<and> (time_based rc \<noteq> Some False \<longrightarrow>
               start_t \<le> time_of (timestamp alert) \<and> time_of (timestamp alert) \<le> end_t)
          \<and> (\<forall>cs. categories rc = Some cs \<longrightarrow> category alert \<in> set cs)
          \<and> (\<forall>ss. sources rc = Some ss \<longrightarrow> source alert \<in> set ss)
          \<and> (\<forall>vs. severities rc = Some vs \<longrightarrow>
                 severity_value (severity alert) \<in> set vs))"
  unfolding is_suppressed_def is_suppressed_loop_iff check_rule_Matches_iff ..

text \<open>
  The specification's fourth scenario: the night rule for low severity, declared
  \<open>time_based\<close>, suppresses a low-severity alert created at 03:00 and does not suppress
  a high-severity alert created at the same time.
\<close>

theorem is_suppressed_iff_rule_matches_witness:
  "(''night'', night_rule_low) \<in> set (suppression_rules' (manager_with_rule night_rule_low))
   \<and> strptime_HM (dict_get (start_time night_rule_low) ''00:00'') = Some 0
   \<and> strptime_HM (dict_get (end_time night_rule_low) ''23:59'') = Some 21600000000
   \<and> time_of (timestamp (alert_at LOW 10800000000)) = 10800000000
   \<and> is_suppressed (manager_with_rule night_rule_low) (alert_at LOW 10800000000)
   \<and> \<not> is_suppressed (manager_with_rule night_rule_low) (alert_at HIGH 10800000000)"
proof -
  let ?m = "manager_with_rule night_rule_low"
  have r: "suppression_rules' ?m = [(''night'', night_rule_low)]"
    by (simp add: manager_with_rule_def)
  have s: "strptime_HM (dict_get (start_time night_rule_low) ''00:00'') = Some 0"
    by (simp add: night_rule_low_def dict_get_def strptime_midnight)
  have e: "strptime_HM (dict_get (end_time night_rule_low) ''23:59'') = Some 21600000000"
    by (simp add: night_rule_low_def dict_get_def strptime_six)
  have t: "time_of (timestamp (alert_at sev 10800000000)) = 10800000000" for sev
    by (simp add: alert_at_def new_alert_def time_of_def day_length_def)
  have f: "categories night_rule_low = None" "sources night_rule_low = None"
    "severities night_rule_low = Some [''low'']" "time_based night_rule_low = Some True"
    by (simp_all add: night_rule_low_def)
  have v: "severity_value (severity (alert_at LOW 10800000000)) = ''low''"
    "severity_value (severity (alert_at HIGH 10800000000)) = ''high''"
    by (simp_all add: alert_at_def new_alert_def)
  have c1: "is_suppressed ?m (alert_at LOW 10800000000)"
    unfolding is_suppressed_iff_rule_matches r
    by (simp add: s e t f v)
  have c2: "\<not> is_suppressed ?m (alert_at HIGH 10800000000)"
    unfolding is_suppressed_iff_rule_matches r
    by (simp add: s e t f v)
  have m: "(''night'', night_rule_low) \<in> set (suppression_rules' ?m)"
    by (simp add: r)
  from m s e t [of LOW] c1 c2 show ?thesis by (intro conjI)
qed

section \<open>Creating a suppressed or duplicate alert\<close>

text \<open>
  Claim C7: \<open>create_alert\<close> always returns the generated id and raises for neither
  suppression nor deduplication. When the new alert is a duplicate, the manager is left as
  it is: nothing is added to the index of active alerts and nothing is queued for
  notification. When it is suppressed, its status is set to suppressed and the manager is
  left as it is, so it is not in the index either.
\<close>

theorem create_alert_silent:
  "fst (create_alert m alert_id now ttl msg sev cat src md dk tgs) = alert_id
   \<and> (is_suppressed m (new_alert alert_id now ttl msg sev cat src md dk tgs) \<longrightarrow>
        status (fst (snd (create_alert m alert_id now ttl msg sev cat src md dk tgs)))
          = SUPPRESSED
        \<and> snd (snd (create_alert m alert_id now ttl msg sev cat src md dk tgs)) = m)
   \<and> (\<not> is_suppressed m (new_alert alert_id now ttl msg sev cat src md dk tgs)
       \<and> is_duplicate m (new_alert alert_id now ttl msg sev cat src md dk tgs) \<longrightarrow>
        snd (snd (create_alert m alert_id now ttl msg sev cat src md dk tgs)) = m)"
  by (simp add: create_alert_def Let_def)

text \<open>
  A low-severity alert created at 03:00 under the night rule for low severity is
  suppressed; a second alert with the dedup key of an open alert is dropped.
\<close>

theorem create_alert_silent_witness:
  "is_suppressed (manager_with_rule night_rule_low)
     (new_alert ''probe'' 10800000000 ''disk'' ''disk full'' LOW ''system'' ''server-01''
        None None None)
   \<and> status (fst (snd (create_alert (manager_with_rule night_rule_low)
        ''probe'' 10800000000 ''disk'' ''disk full'' LOW ''system'' ''server-01''
        None None None))) = SUPPRESSED
   \<and> snd (snd (create_alert (manager_with_rule night_rule_low)
        ''probe'' 10800000000 ''disk'' ''disk full'' LOW ''system'' ''server-01''
        None None None)) = manager_with_rule night_rule_low
   \<and> is_duplicate
        (with_alert (fresh_manager scenario_policy always_sends always_sends)
           ''a1'' (Some ''db-down''))
        (new_alert ''a2'' 5 ''db'' ''db down again'' CRITICAL ''database'' ''pg''
           None (Some ''db-down'') None)
   \<and> create_alert
        (with_alert (fresh_manager scenario_policy always_sends always_sends)
           ''a1'' (Some ''db-down''))
        ''a2'' 5 ''db'' ''db down again'' CRITICAL ''database'' ''pg''
        None (Some ''db-down'') None
      = (''a2'',
         new_alert ''a2'' 5 ''db'' ''db down again'' CRITICAL ''database'' ''pg''
           None (Some ''db-down'') None,
         with_alert (fresh_manager scenario_policy always_sends always_sends)
           ''a1'' (Some ''db-down''))"
proof -
  let ?ms = "manager_with_rule night_rule_low"
  let ?as = "new_alert ''probe'' 10800000000 ''disk'' ''disk full'' LOW ''system''
               ''server-01'' None None None"
  let ?m1 = "with_alert (fresh_manager scenario_policy always_sends always_sends)
               ''a1'' (Some ''db-down'')"
  let ?a2 = "new_alert ''a2'' 5 ''db'' ''db down again'' CRITICAL ''database'' ''pg''
               None (Some ''db-down'') None"
  have ch: "check_rule night_rule_low ?as = Matches"
    using check_night_rule_low [of LOW 10800000000]
    by (simp add: alert_at_def time_of_def day_length_def)
  have s: "is_suppressed ?ms ?as"
    by (simp add: is_suppressed_def manager_with_rule_def ch)
  have ns: "\<not> is_suppressed ?m1 ?a2"
    unfolding with_alert_fresh by (simp add: is_suppressed_def fresh_manager_def)
  have d: "is_duplicate ?m1 ?a2"
    by (simp add: is_duplicate_def with_alert_fresh new_alert_def)
  note T = create_alert_silent
  have c0: "fst (create_alert ?m1 ''a2'' 5 ''db'' ''db down again'' CRITICAL ''database''
                   ''pg'' None (Some ''db-down'') None) = ''a2''"
    by (rule conjunct1 [OF T])
  have c1: "status (fst (snd (create_alert ?ms ''probe'' 10800000000 ''disk''
                ''disk full'' LOW ''system'' ''server-01'' None None None))) = SUPPRESSED
        \<and> snd (snd (create_alert ?ms ''probe'' 10800000000 ''disk''
                ''disk full'' LOW ''system'' ''server-01'' None None None)) = ?ms"
    by (rule mp [OF conjunct1 [OF conjunct2 [OF T]] s])
  have c2: "snd (snd (create_alert ?m1 ''a2'' 5 ''db'' ''db down again'' CRITICAL
                ''database'' ''pg'' None (Some ''db-down'') None)) = ?m1"
    by (rule mp [OF conjunct2 [OF conjunct2 [OF T]] conjI [OF ns d]])
  have local: "fst (snd (create_alert ?m1 ''a2'' 5 ''db'' ''db down again'' CRITICAL
                ''database'' ''pg'' None (Some ''db-down'') None)) = ?a2"
    using ns d by (simp add: create_alert_def Let_def)
  have c3: "create_alert ?m1 ''a2'' 5 ''db'' ''db down again'' CRITICAL
                ''database'' ''pg'' None (Some ''db-down'') None = (''a2'', ?a2, ?m1)"
    using c0 local c2 by (simp add: prod_eq_iff)
  from s c1 d c3 show ?thesis by (intro conjI) simp_all
qed

section \<open>Acknowledging and resolving an alert\<close>

text \<open>
  Claim C8: \<open>acknowledge_alert\<close> and \<open>resolve_alert\<close> return false, change nothing
  and write nothing to the database when the id is not in the index of active alerts;
  otherwise they return true, set the status to acknowledged (resp. resolved), record the
  actor and the time, store the optional notes under \<open>resolution_notes\<close> in the alert's
  metadata (notes that are absent or empty leave the metadata as they are), and save the
  alert.
\<close>

theorem acknowledge_resolve_contract:
  "(map_of (active_alerts m) alert_id = None \<longrightarrow>
      acknowledge_alert m alert_id actor now = (False, m)
      \<and> resolve_alert m alert_id actor notes now = (False, m))
   \<and> (map_of (active_alerts m) alert_id = Some r \<and> r < length (heap m) \<longrightarrow>
      fst (acknowledge_alert m alert_id actor now)
      \<and> status (heap (snd (acknowledge_alert m alert_id actor now)) ! r) = ACKNOWLEDGED
      \<and> acknowledged_by (heap (snd (acknowledge_alert m alert_id actor now)) ! r)
           = Some actor
      \<and> acknowledged_at (heap (snd (acknowledge_alert m alert_id actor now)) ! r)
           = Some now
      \<and> db_alerts (snd (acknowledge_alert m alert_id actor now))
           = db_alerts m @ [heap (snd (acknowledge_alert m alert_id actor now)) ! r]
      \<and> fst (resolve_alert m alert_id actor notes now)
      \<and> status (heap (snd (resolve_alert m alert_id actor notes now)) ! r) = RESOLVED
      \<and> resolved_by (heap (snd (resolve_alert m alert_id actor notes now)) ! r)
           = Some actor
      \<and> resolved_at (heap (snd (resolve_alert m alert_id actor notes now)) ! r)
           = Some now
      \<and> map_of (metadata (heap (snd (resolve_alert m alert_id actor notes now)) ! r))
            ''resolution_notes''
           = (if notes = None \<or> notes = Some []
              then map_of (metadata (heap m ! r)) ''resolution_notes'' else notes)
      \<and> db_alerts (snd (resolve_alert m alert_id actor notes now))
           = db_alerts m @ [heap (snd (resolve_alert m alert_id actor notes now)) ! r])"
proof -
  have A: "map_of (active_alerts m) alert_id = None \<longrightarrow>
      acknowledge_alert m alert_id actor now = (False, m)
      \<and> resolve_alert m alert_id actor notes now = (False, m)"
    by (simp add: acknowledge_alert_def resolve_alert_def)
  have B: "map_of (active_alerts m) alert_id = Some r \<and> r < length (heap m) \<longrightarrow>
      fst (acknowledge_alert m alert_id actor now)
      \<and> status (heap (snd (acknowledge_alert m alert_id actor now)) ! r) = ACKNOWLEDGED
      \<and> acknowledged_by (heap (snd (acknowledge_alert m alert_id actor now)) ! r)
           = Some actor
      \<and> acknowledged_at (heap (snd (acknowledge_alert m alert_id actor now)) ! r)
           = Some now
      \<and> db_alerts (snd (acknowledge_alert m alert_id actor now))
           = db_alerts m @ [heap (snd (acknowledge_alert m alert_id actor now)) ! r]
      \<and> fst (resolve_alert m alert_id actor notes now)
      \<and> status (heap (snd (resolve_alert m alert_id actor notes now)) ! r) = RESOLVED
      \<and> resolved_by (heap (snd (resolve_alert m alert_id actor notes now)) ! r)
           = Some actor
      \<and> resolved_at (heap (snd (resolve_alert m alert_id actor notes now)) ! r)
           = Some now
      \<and> map_of (metadata (heap (snd (resolve_alert m alert_id actor notes now)) ! r))
            ''resolution_notes''
           = (if notes = None \<or> notes = Some []
              then map_of (metadata (heap m ! r)) ''resolution_notes'' else notes)
      \<and> db_alerts (snd (resolve_alert m alert_id actor notes now))
           = db_alerts m @ [heap (snd (resolve_alert m alert_id actor notes now)) ! r]"
    by (auto simp: acknowledge_alert_def resolve_alert_def save_alert_def Let_def
          update_conv')
  from A B show ?thesis by (intro conjI)
qed

text \<open>
  The specification's fifth scenario (an unknown id on a manager without alerts), and an
  alert of the index acknowledged and resolved with a note.
\<close>

theorem acknowledge_resolve_contract_witness:
  "map_of (active_alerts (fresh_manager scenario_policy always_sends always_sends))
     ''unknown'' = None
   \<and> acknowledge_alert (fresh_manager scenario_policy always_sends always_sends)
        ''unknown'' ''alice'' 5
      = (False, fresh_manager scenario_policy always_sends always_sends)
   \<and> resolve_alert (fresh_manager scenario_policy always_sends always_sends)
        ''unknown'' ''alice'' None 5
      = (False, fresh_manager scenario_policy always_sends always_sends)
   \<and> map_of (active_alerts
        (with_alert (fresh_manager scenario_policy always_sends always_sends)
           ''a1'' None)) ''a1'' = Some 0
   \<and> fst (acknowledge_alert
        (with_alert (fresh_manager scenario_policy always_sends always_sends)
           ''a1'' None) ''a1'' ''alice'' 5)
   \<and> status (heap (snd (acknowledge_alert
        (with_alert (fresh_manager scenario_policy always_sends always_sends)
           ''a1'' None) ''a1'' ''alice'' 5)) ! 0) = ACKNOWLEDGED
   \<and> fst (resolve_alert
        (with_alert (fresh_manager scenario_policy always_sends always_sends)
           ''a1'' None) ''a1'' ''alice'' (Some ''rebooted'') 5)
   \<and> status (heap (snd (resolve_alert
        (with_alert (fresh_manager scenario_policy always_sends always_sends)
           ''a1'' None) ''a1'' ''alice'' (Some ''rebooted'') 5)) ! 0) = RESOLVED
   \<and> map_of (metadata (heap (snd (resolve_alert
        (with_alert (fresh_manager scenario_policy always_sends always_sends)
           ''a1'' None) ''a1'' ''alice'' (Some ''rebooted'') 5)) ! 0)) ''resolution_notes''
      = Some ''rebooted''"
proof -
  let ?m0 = "fresh_manager scenario_policy always_sends always_sends"
  let ?m1 = "with_alert ?m0 ''a1'' None"
  have h0: "map_of (active_alerts ?m0) ''unknown'' = None"
    by (simp add: fresh_manager_def)
  have h1: "map_of (active_alerts ?m1) ''a1'' = Some 0 \<and> 0 < length (heap ?m1)"
    by (simp add: with_alert_fresh)
  note A = mp [OF conjunct1 [OF acknowledge_resolve_contract] h0]
  note B = mp [OF conjunct2 [OF acknowledge_resolve_contract] h1]
  have n: "(if Some ''rebooted'' = None \<or> Some ''rebooted'' = Some []
            then map_of (metadata (heap ?m1 ! 0)) ''resolution_notes''
            else Some ''rebooted'') = Some ''rebooted''"
    by simp
  from h0 h1 A [of "''alice''" 5 None] B [of "''alice''" 5 "Some ''rebooted''"]
  show ?thesis
    unfolding n by (elim conjE) (intro conjI, assumption+)
qed

section \<open>A channel that fails during fan-out\<close>

text \<open>
  Claim C9: in the initial fan-out and in every escalation fan-out, a send that fails is
  caught, recorded as a failed notification, and the remaining channels are still tried.
  Here Slack always raises and e-mail always succeeds, and the policy names Slack and
  e-mail at level 0 and at level 1. The initial fan-out writes a \<open>failed\<close> row for Slack
  and a \<open>sent\<close> row for e-mail. The escalation fan-out calls both channels and writes
  the \<open>escalated\<close> row for e-mail, but no row at all for the failed Slack send.
\<close>

theorem escalation_failure_not_recorded:
  "db_notifications
     (send_initial_notifications
        (with_alert (fresh_manager both_channels_policy always_sends always_raises)
           ''a1'' None) 0)
     = [(''a1'', SLACK, ''system'', ''failed'', Some ''connection refused''),
        (''a1'', EMAIL, ''system'', ''sent'', None)]
   \<and> send_log
        (escalate_alert
           (with_alert (fresh_manager both_channels_policy always_sends always_raises)
              ''a1'' None) 0 1)
     = [(SLACK, ''a1'', True), (EMAIL, ''a1'', True)]
   \<and> db_notifications
        (escalate_alert
           (with_alert (fresh_manager both_channels_policy always_sends always_raises)
              ''a1'' None) 0 1)
     = [(''a1'', EMAIL, ''system'', ''escalated'', None)]"
proof -
  let ?m1 = "with_alert (fresh_manager both_channels_policy always_sends always_raises)
               ''a1'' None"
  have a: "db_notifications (send_initial_notifications ?m1 0)
             = [(''a1'', SLACK, ''system'', ''failed'', Some ''connection refused''),
                (''a1'', EMAIL, ''system'', ''sent'', None)]"
    by (unfold with_alert_fresh,
        simp add: send_initial_notifications_def get_escalation_policy_def
          fresh_manager_def both_channels_policy_def dict_get_def always_sends_def
          always_raises_def save_notification_def new_alert_def Let_def)
  have b: "send_log (escalate_alert ?m1 0 1) = [(SLACK, ''a1'', True), (EMAIL, ''a1'', True)]"
    by (unfold with_alert_fresh,
        simp add: escalate_alert_def get_escalation_policy_def
          fresh_manager_def both_channels_policy_def dict_get_def always_sends_def
          always_raises_def save_notification_def new_alert_def Let_def)
  have c: "db_notifications (escalate_alert ?m1 0 1)
             = [(''a1'', EMAIL, ''system'', ''escalated'', None)]"
    by (unfold with_alert_fresh,
        simp add: escalate_alert_def get_escalation_policy_def
          fresh_manager_def both_channels_policy_def dict_get_def always_sends_def
          always_raises_def save_notification_def new_alert_def Let_def)
  from a b c show ?thesis by (intro conjI)
qed

section \<open>Escalation without a policy or without channels for the level\<close>

text \<open>
  Claim C10: when no escalation policy matches the alert's severity, or the matching
  policy has no entry for the level in \<open>notification_channels\<close>, \<open>escalate_alert\<close>
  leaves the manager as it is: status and escalation level keep their values, no channel
  is called and no escalation action runs.
\<close>

theorem escalate_alert_unconfigured_noop:
  "get_escalation_policy m (severity (heap m ! r)) = None
   \<or> (\<exists>policy. get_escalation_policy m (severity (heap m ! r)) = Some policy
                \<and> notification_channels policy lvl = None)
   \<Longrightarrow> escalate_alert m r lvl = m"
  by (auto simp: escalate_alert_def Let_def)

theorem escalate_alert_unconfigured_noop_witness:
  "get_escalation_policy
     ((fresh_manager scenario_policy always_sends always_sends)\<lparr>heap := [alert_at LOW 0]\<rparr>)
     (severity (heap ((fresh_manager scenario_policy always_sends always_sends)
                        \<lparr>heap := [alert_at LOW 0]\<rparr>) ! 0)) = None
   \<and> escalate_alert
        ((fresh_manager scenario_policy always_sends always_sends)
           \<lparr>heap := [alert_at LOW 0]\<rparr>) 0 1
      = (fresh_manager scenario_policy always_sends always_sends)\<lparr>heap := [alert_at LOW 0]\<rparr>
   \<and> get_escalation_policy
        (with_alert (fresh_manager scenario_policy always_sends always_sends) ''a1'' None)
        (severity (heap (with_alert (fresh_manager scenario_policy always_sends always_sends)
                           ''a1'' None) ! 0)) = Some scenario_policy
   \<and> notification_channels scenario_policy 2 = None
   \<and> escalate_alert
        (with_alert (fresh_manager scenario_policy always_sends always_sends) ''a1'' None)
        0 2
      = with_alert (fresh_manager scenario_policy always_sends always_sends) ''a1'' None"
proof -
  let ?m0 = "(fresh_manager scenario_policy always_sends always_sends)
               \<lparr>heap := [alert_at LOW 0]\<rparr>"
  let ?m1 = "with_alert (fresh_manager scenario_policy always_sends always_sends) ''a1'' None"
  have h0: "get_escalation_policy ?m0 (severity (heap ?m0 ! 0)) = None"
    by (simp add: get_escalation_policy_def fresh_manager_def alert_at_def new_alert_def
          scenario_policy_def)
  have sv: "severity (heap ?m1 ! 0) = HIGH"
    by (simp add: with_alert_fresh new_alert_def)
  have h1: "get_escalation_policy ?m1 (severity (heap ?m1 ! 0)) = Some scenario_policy"
    unfolding sv scenario_lookup by (simp add: scenario_policy_def)
  have h2: "notification_channels scenario_policy 2 = None"
    by (simp add: scenario_policy_def)
  have c0: "escalate_alert ?m0 0 1 = ?m0"
    by (rule escalate_alert_unconfigured_noop) (rule disjI1, rule h0)
  have c1: "escalate_alert ?m1 0 2 = ?m1"
    by (rule escalate_alert_unconfigured_noop)
       (rule disjI2, rule exI [of _ scenario_policy], rule conjI [OF h1 h2])
  from h0 c0 h1 h2 c1 show ?thesis by (intro conjI)
qed

end
